theory Spec2Isabelle
  imports Main
begin

section \<open>Python strings\<close>

text \<open>
  A Python \<open>str\<close> is modelled as a \<open>string\<close>, one \<open>char\<close> per code point; the
  texts of the detector (Portuguese messages) stay below code point 256, and the
  accented letters are written \<open>CHR 0x..\<close>.
\<close>

fun startswith :: "string \<Rightarrow> string \<Rightarrow> bool" where
  "startswith s [] = True"
| "startswith [] (p # ps) = False"
| "startswith (c # cs) (p # ps) = (c = p \<and> startswith cs ps)"

text \<open>\<open>sub in s\<close> on two strings.\<close>

fun str_contains :: "string \<Rightarrow> string \<Rightarrow> bool" where
  "str_contains sub [] = (sub = [])"
| "str_contains sub (c # cs) = (startswith (c # cs) sub \<or> str_contains sub cs)"

text \<open>
  \<open>s.replace(old, new)\<close> for a non-empty \<open>old\<close>: every non-overlapping occurrence,
  left to right. The counter is the number of characters of the current occurrence
  still to be skipped.
\<close>

fun replace_from :: "string \<Rightarrow> string \<Rightarrow> nat \<Rightarrow> string \<Rightarrow> string" where
  "replace_from old new k [] = []"
| "replace_from old new (Suc k) (c # cs) = replace_from old new k cs"
| "replace_from old new 0 (c # cs) =
     (if startswith (c # cs) old then new @ replace_from old new (length old - 1) cs
      else c # replace_from old new 0 cs)"

text \<open>With an empty \<open>old\<close>, Python inserts \<open>new\<close> before every character and at the end.\<close>

definition str_replace :: "string \<Rightarrow> string \<Rightarrow> string \<Rightarrow> string" where
  "str_replace s old new =
     (if old = [] then concat (map (\<lambda>c. new @ [c]) s) @ new
      else replace_from old new 0 s)"

section \<open>The regular expressions of the detector\<close>

text \<open>
  Every pattern the detector hands to \<open>re\<close> is a sequence of one-character atoms
  (a literal, \<open>\s\<close>, a bracket class), each with at most one greedy quantifier,
  and its capture groups enclose consecutive atoms. The matcher is the backtracking
  matcher of \<open>re\<close> on that fragment: an atom takes as many characters as it can and
  gives them back one at a time while the rest of the pattern fails.
\<close>

datatype cclass =
    Chr char
  | Space
  | OneOf "(char \<times> char) list"
  | NoneOf "(char \<times> char) list"

datatype quant = Once | Star | Plus | Times nat

type_synonym atom = "cclass \<times> quant"

datatype piece = A cclass quant | Grp "atom list"

text \<open>\<open>\s\<close> on \<open>str\<close> patterns is \<open>str.isspace\<close>; below 256 that is this set.\<close>

definition is_space :: "char \<Rightarrow> bool" where
  "is_space c = ((of_char c :: nat) \<in> {9, 10, 11, 12, 13, 28, 29, 30, 31, 32, 133, 160})"

definition in_range :: "char \<Rightarrow> char \<times> char \<Rightarrow> bool" where
  "in_range c r = ((of_char (fst r) :: nat) \<le> of_char c \<and> (of_char c :: nat) \<le> of_char (snd r))"

fun in_class :: "cclass \<Rightarrow> char \<Rightarrow> bool" where
  "in_class (Chr d) c = (c = d)"
| "in_class Space c = is_space c"
| "in_class (OneOf rs) c = list_ex (in_range c) rs"
| "in_class (NoneOf rs) c = (\<not> list_ex (in_range c) rs)"

fun q_min :: "quant \<Rightarrow> nat" where
  "q_min Once = 1"
| "q_min Star = 0"
| "q_min Plus = 1"
| "q_min (Times n) = n"

fun q_max :: "quant \<Rightarrow> nat option" where
  "q_max Once = Some 1"
| "q_max Star = None"
| "q_max Plus = None"
| "q_max (Times n) = Some n"

text \<open>\<open>try_down f lo d\<close> tries the counts \<open>lo + d\<close>, ..., \<open>lo\<close> in that order.\<close>

primrec try_down :: "(nat \<Rightarrow> 'a option) \<Rightarrow> nat \<Rightarrow> nat \<Rightarrow> 'a option" where
  "try_down f lo 0 = f lo"
| "try_down f lo (Suc d) =
     (case f (lo + Suc d) of Some r \<Rightarrow> Some r | None \<Rightarrow> try_down f lo d)"

text \<open>
  Matching at the start of \<open>s\<close>: the text each atom consumed, and the rest of \<open>s\<close>.
\<close>

fun match_atoms :: "atom list \<Rightarrow> string \<Rightarrow> (string list \<times> string) option" where
  "match_atoms [] s = Some ([], s)"
| "match_atoms ((c, q) # as) s =
     (let avail = length (takeWhile (in_class c) s);
          hi = (case q_max q of None \<Rightarrow> avail | Some m \<Rightarrow> min m avail);
          lo = q_min q
      in if hi < lo then None
         else try_down
                (\<lambda>k. case match_atoms as (drop k s) of
                        None \<Rightarrow> None
                      | Some (ms, r) \<Rightarrow> Some (take k s # ms, r))
                lo (hi - lo))"

fun atoms_of :: "piece \<Rightarrow> atom list" where
  "atoms_of (A c q) = [(c, q)]"
| "atoms_of (Grp as) = as"

text \<open>The texts of the capture groups, from the texts of the atoms.\<close>

fun groups_of :: "piece list \<Rightarrow> string list \<Rightarrow> string list" where
  "groups_of [] ms = []"
| "groups_of (A c q # ps) ms = groups_of ps (drop 1 ms)"
| "groups_of (Grp as # ps) ms = concat (take (length as) ms) # groups_of ps (drop (length as) ms)"

text \<open>A match: the matched text and the groups.\<close>

definition match_here :: "piece list \<Rightarrow> string \<Rightarrow> (string \<times> string list) option" where
  "match_here ps s =
     (case match_atoms (concat (map atoms_of ps)) s of
        None \<Rightarrow> None
      | Some (ms, r) \<Rightarrow> Some (concat ms, groups_of ps ms))"

text \<open>\<open>re.search\<close>: the leftmost match.\<close>

fun re_search :: "piece list \<Rightarrow> string \<Rightarrow> (string \<times> string list) option" where
  "re_search ps [] = match_here ps []"
| "re_search ps (c # cs) =
     (case match_here ps (c # cs) of Some m \<Rightarrow> Some m | None \<Rightarrow> re_search ps cs)"

text \<open>
  \<open>re.findall\<close>: the groups of every non-overlapping match, left to right. The counter
  is the number of characters of the last match still to be skipped.
\<close>

fun findall_from :: "piece list \<Rightarrow> nat \<Rightarrow> string \<Rightarrow> string list list" where
  "findall_from ps k [] =
     (if k = 0 then (case match_here ps [] of None \<Rightarrow> [] | Some (m, gs) \<Rightarrow> [gs]) else [])"
| "findall_from ps (Suc k) (c # cs) = findall_from ps k cs"
| "findall_from ps 0 (c # cs) =
     (case match_here ps (c # cs) of
        None \<Rightarrow> findall_from ps 0 cs
      | Some (m, gs) \<Rightarrow> gs # findall_from ps (length m - 1) cs)"

definition re_findall :: "piece list \<Rightarrow> string \<Rightarrow> string list list" where
  "re_findall ps s = findall_from ps 0 s"

text \<open>With one group, \<open>findall\<close> returns the list of that group's texts.\<close>

definition re_findall1 :: "piece list \<Rightarrow> string \<Rightarrow> string list" where
  "re_findall1 ps s = map (\<lambda>gs. concat (take 1 gs)) (re_findall ps s)"

text \<open>
  A replacement template after \<open>re\<close> has parsed it: group references and literal
  text. \<open>re.sub\<close> replaces every non-overlapping match.
\<close>

datatype tpart = TGroup nat | TLit string

fun expand :: "tpart list \<Rightarrow> string list \<Rightarrow> string" where
  "expand [] gs = []"
| "expand (TGroup n # ts) gs = (if n - 1 < length gs then gs ! (n - 1) else []) @ expand ts gs"
| "expand (TLit l # ts) gs = l @ expand ts gs"

fun sub_from :: "piece list \<Rightarrow> tpart list \<Rightarrow> nat \<Rightarrow> string \<Rightarrow> string" where
  "sub_from ps t k [] =
     (if k = 0 then (case match_here ps [] of None \<Rightarrow> [] | Some (m, gs) \<Rightarrow> expand t gs) else [])"
| "sub_from ps t (Suc k) (c # cs) = sub_from ps t k cs"
| "sub_from ps t 0 (c # cs) =
     (case match_here ps (c # cs) of
        None \<Rightarrow> c # sub_from ps t 0 cs
      | Some (m, gs) \<Rightarrow>
          (if m = [] then expand t gs @ c # sub_from ps t 0 cs
           else expand t gs @ sub_from ps t (length m - 1) cs))"

definition re_sub :: "piece list \<Rightarrow> tpart list \<Rightarrow> string \<Rightarrow> string" where
  "re_sub ps t s = sub_from ps t 0 s"

definition lit :: "string \<Rightarrow> piece list" where
  "lit s = map (\<lambda>c. A (Chr c) Once) s"

definition lit_atoms :: "string \<Rightarrow> atom list" where
  "lit_atoms s = map (\<lambda>c. (Chr c, Once)) s"

section \<open>Python values\<close>

text \<open>
  What \<open>yaml.safe_load\<close> returns and what the findings hold: \<open>None\<close>, booleans,
  integers, strings, lists, tuples (the pairs of an ordered map) and dictionaries in
  insertion order. Floats, timestamps and binary scalars are outside the model.

  The loader returns objects, and the patchers change them in place. A list or a
  dictionary that the document holds at more than one place (in YAML, an anchored node
  and its aliases) is written \<open>PShared n v\<close> at each of these places, with the same
  number \<open>n\<close> and the same state \<open>v\<close>; a list or dictionary written without a number is
  held at that one place only. Documents that contain themselves are outside the model.
\<close>

datatype pyval =
    PNone
  | PBool bool
  | PInt int
  | PStr string
  | PList "pyval list"
  | PTuple "pyval list"
  | PDict "(pyval \<times> pyval) list"
  | PShared nat pyval

datatype exn = TypeError | AttributeError | KeyError | IndexError | YAMLError | Unmodelled

text \<open>The object itself, whatever number it goes by.\<close>

fun obj :: "pyval \<Rightarrow> pyval" where
  "obj (PShared n v) = obj v"
| "obj v = v"

text \<open>
  \<open>==\<close>: a boolean equals the integer 0 or 1; dictionaries compare without order; a
  tuple never equals a list.
\<close>

fun py_eq :: "pyval \<Rightarrow> pyval \<Rightarrow> bool" where
  "py_eq (PShared n a) b = py_eq a b"
| "py_eq a (PShared n b) = py_eq a b"
| "py_eq PNone PNone = True"
| "py_eq (PBool a) (PBool b) = (a = b)"
| "py_eq (PBool a) (PInt b) = ((if a then 1 else 0) = b)"
| "py_eq (PInt a) (PBool b) = (a = (if b then 1 else 0))"
| "py_eq (PInt a) (PInt b) = (a = b)"
| "py_eq (PStr a) (PStr b) = (a = b)"
| "py_eq (PList xs) (PList ys) = list_all2 py_eq xs ys"
| "py_eq (PTuple xs) (PTuple ys) = list_all2 py_eq xs ys"
| "py_eq (PDict xs) (PDict ys) =
     (length xs = length ys \<and>
      list_all (\<lambda>kv. list_ex (\<lambda>kv'. py_eq (fst kv) (fst kv') \<and> py_eq (snd kv) (snd kv')) ys) xs)"
| "py_eq _ _ = False"

fun hashable :: "pyval \<Rightarrow> bool" where
  "hashable (PList xs) = False"
| "hashable (PDict d) = False"
| "hashable (PTuple xs) = list_all hashable xs"
| "hashable (PShared n v) = hashable v"
| "hashable _ = True"

fun py_truthy :: "pyval \<Rightarrow> bool" where
  "py_truthy PNone = False"
| "py_truthy (PBool b) = b"
| "py_truthy (PInt i) = (i \<noteq> 0)"
| "py_truthy (PStr s) = (s \<noteq> [])"
| "py_truthy (PList xs) = (xs \<noteq> [])"
| "py_truthy (PTuple xs) = (xs \<noteq> [])"
| "py_truthy (PDict d) = (d \<noteq> [])"
| "py_truthy (PShared n v) = py_truthy v"

fun dict_find :: "pyval \<Rightarrow> (pyval \<times> pyval) list \<Rightarrow> pyval option" where
  "dict_find k [] = None"
| "dict_find k ((k', v) # d) = (if py_eq k k' then Some v else dict_find k d)"

text \<open>\<open>d[k] = v\<close>: an existing key keeps its place, a new key goes last.\<close>

fun dict_set :: "pyval \<Rightarrow> pyval \<Rightarrow> (pyval \<times> pyval) list \<Rightarrow> (pyval \<times> pyval) list" where
  "dict_set k v [] = [(k, v)]"
| "dict_set k v ((k', v') # d) = (if py_eq k k' then (k', v) # d else (k', v') # dict_set k v d)"

text \<open>\<open>del d[k]\<close>: a dictionary holds one entry per key, so nothing under \<open>k\<close> is left.\<close>

fun dict_del :: "pyval \<Rightarrow> (pyval \<times> pyval) list \<Rightarrow> (pyval \<times> pyval) list" where
  "dict_del k [] = []"
| "dict_del k ((k', v') # d) = (if py_eq k k' then dict_del k d else (k', v') # dict_del k d)"

definition bindE :: "exn + 'a \<Rightarrow> ('a \<Rightarrow> exn + 'b) \<Rightarrow> exn + 'b" where
  "bindE m f = (case m of Inl e \<Rightarrow> Inl e | Inr v \<Rightarrow> f v)"

text \<open>\<open>x in c\<close>.\<close>

fun py_in :: "pyval \<Rightarrow> pyval \<Rightarrow> exn + bool" where
  "py_in x (PDict d) = (if hashable x then Inr (dict_find x d \<noteq> None) else Inl TypeError)"
| "py_in x (PList xs) = Inr (list_ex (py_eq x) xs)"
| "py_in x (PTuple xs) = Inr (list_ex (py_eq x) xs)"
| "py_in x (PStr s) = (case x of PStr t \<Rightarrow> Inr (str_contains t s) | _ \<Rightarrow> Inl TypeError)"
| "py_in x (PShared n c) = py_in x c"
| "py_in x _ = Inl TypeError"

definition py_not_in :: "pyval \<Rightarrow> pyval \<Rightarrow> exn + bool" where
  "py_not_in x c = bindE (py_in x c) (\<lambda>b. Inr (\<not> b))"

fun as_index :: "pyval \<Rightarrow> int option" where
  "as_index (PInt i) = Some i"
| "as_index (PBool b) = Some (if b then 1 else 0)"
| "as_index _ = None"

text \<open>A position in a sequence of the given length; a negative one counts from the end.\<close>

definition norm_index :: "nat \<Rightarrow> int \<Rightarrow> nat option" where
  "norm_index len i =
     (if i < 0 then (if - i \<le> int len then Some (nat (int len + i)) else None)
      else (if i < int len then Some (nat i) else None))"

definition seq_index :: "'a list \<Rightarrow> int \<Rightarrow> exn + 'a" where
  "seq_index xs i =
     (case norm_index (length xs) i of None \<Rightarrow> Inl IndexError | Some j \<Rightarrow> Inr (xs ! j))"

text \<open>\<open>c[k]\<close>.\<close>

fun py_getitem :: "pyval \<Rightarrow> pyval \<Rightarrow> exn + pyval" where
  "py_getitem (PDict d) k =
     (if hashable k then (case dict_find k d of None \<Rightarrow> Inl KeyError | Some v \<Rightarrow> Inr v)
      else Inl TypeError)"
| "py_getitem (PList xs) k =
     (case as_index k of None \<Rightarrow> Inl TypeError | Some i \<Rightarrow> seq_index xs i)"
| "py_getitem (PTuple xs) k =
     (case as_index k of None \<Rightarrow> Inl TypeError | Some i \<Rightarrow> seq_index xs i)"
| "py_getitem (PStr s) k =
     (case as_index k of None \<Rightarrow> Inl TypeError
      | Some i \<Rightarrow> bindE (seq_index s i) (\<lambda>c. Inr (PStr [c])))"
| "py_getitem (PShared n c) k = py_getitem c k"
| "py_getitem _ k = Inl TypeError"

text \<open>
  \<open>c[k] = v\<close>, \<open>del c[k]\<close> and \<open>c.append(x)\<close> give the object \<open>c\<close> in its new state; a
  shared object keeps its number. What the other places that hold it then show is
  settled by \<open>mutate\<close> below.
\<close>

definition keep_number :: "nat \<Rightarrow> exn + pyval \<Rightarrow> exn + pyval" where
  "keep_number n r = bindE r (\<lambda>c. Inr (PShared n c))"

fun py_setitem :: "pyval \<Rightarrow> pyval \<Rightarrow> pyval \<Rightarrow> exn + pyval" where
  "py_setitem (PDict d) k v = (if hashable k then Inr (PDict (dict_set k v d)) else Inl TypeError)"
| "py_setitem (PList xs) k v =
     (case as_index k of None \<Rightarrow> Inl TypeError
      | Some i \<Rightarrow>
          (case norm_index (length xs) i of
             None \<Rightarrow> Inl IndexError
           | Some j \<Rightarrow> Inr (PList (xs[j := v]))))"
| "py_setitem (PShared n c) k v = keep_number n (py_setitem c k v)"
| "py_setitem _ k v = Inl TypeError"

fun py_delitem :: "pyval \<Rightarrow> pyval \<Rightarrow> exn + pyval" where
  "py_delitem (PDict d) k =
     (if hashable k then (case dict_find k d of None \<Rightarrow> Inl KeyError | Some v \<Rightarrow> Inr (PDict (dict_del k d)))
      else Inl TypeError)"
| "py_delitem (PList xs) k =
     (case as_index k of None \<Rightarrow> Inl TypeError
      | Some i \<Rightarrow>
          (case norm_index (length xs) i of
             None \<Rightarrow> Inl IndexError
           | Some j \<Rightarrow> Inr (PList (take j xs @ drop (Suc j) xs))))"
| "py_delitem (PShared n c) k = keep_number n (py_delitem c k)"
| "py_delitem _ k = Inl TypeError"

text \<open>\<open>xs.append(x)\<close> is a method of \<open>list\<close> only.\<close>

fun py_append :: "pyval \<Rightarrow> pyval \<Rightarrow> exn + pyval" where
  "py_append (PList xs) x = Inr (PList (xs @ [x]))"
| "py_append (PShared n c) x = keep_number n (py_append c x)"
| "py_append _ x = Inl AttributeError"

text \<open>\<open>d.items()\<close>, \<open>d.keys()\<close>, \<open>d.get(k, default)\<close>: methods of \<open>dict\<close> only.\<close>

fun py_items :: "pyval \<Rightarrow> exn + (pyval \<times> pyval) list" where
  "py_items (PDict d) = Inr d"
| "py_items (PShared n c) = py_items c"
| "py_items _ = Inl AttributeError"

fun py_keys :: "pyval \<Rightarrow> exn + pyval list" where
  "py_keys (PDict d) = Inr (map fst d)"
| "py_keys (PShared n c) = py_keys c"
| "py_keys _ = Inl AttributeError"

fun py_get :: "pyval \<Rightarrow> pyval \<Rightarrow> pyval \<Rightarrow> exn + pyval" where
  "py_get (PDict d) k dflt =
     (if hashable k then Inr (case dict_find k d of None \<Rightarrow> dflt | Some v \<Rightarrow> v) else Inl TypeError)"
| "py_get (PShared n c) k dflt = py_get c k dflt"
| "py_get _ k dflt = Inl AttributeError"

text \<open>Iteration (\<open>for x in c\<close>, \<open>enumerate(c)\<close>, \<open>set(c)\<close>) and \<open>len(c)\<close>.\<close>

fun py_iter :: "pyval \<Rightarrow> exn + pyval list" where
  "py_iter (PList xs) = Inr xs"
| "py_iter (PTuple xs) = Inr xs"
| "py_iter (PDict d) = Inr (map fst d)"
| "py_iter (PStr s) = Inr (map (\<lambda>c. PStr [c]) s)"
| "py_iter (PShared n c) = py_iter c"
| "py_iter _ = Inl TypeError"

fun py_len :: "pyval \<Rightarrow> exn + nat" where
  "py_len (PList xs) = Inr (length xs)"
| "py_len (PTuple xs) = Inr (length xs)"
| "py_len (PDict d) = Inr (length d)"
| "py_len (PStr s) = Inr (length s)"
| "py_len (PShared n c) = py_len c"
| "py_len _ = Inl TypeError"

text \<open>A \<open>set\<close> is kept as the list of its elements, which must be hashable.\<close>

definition py_set :: "pyval \<Rightarrow> exn + pyval list" where
  "py_set c = bindE (py_iter c) (\<lambda>xs. if list_all hashable xs then Inr xs else Inl TypeError)"

definition set_contains :: "pyval \<Rightarrow> pyval list \<Rightarrow> exn + bool" where
  "set_contains x xs = (if hashable x then Inr (list_ex (py_eq x) xs) else Inl TypeError)"

text \<open>\<open>isinstance(v, str)\<close>, \<open>isinstance(v, list)\<close>, \<open>isinstance(v, dict)\<close>.\<close>

fun is_str :: "pyval \<Rightarrow> bool" where
  "is_str (PStr s) = True"
| "is_str _ = False"

fun is_list :: "pyval \<Rightarrow> bool" where
  "is_list (PList xs) = True"
| "is_list (PShared n v) = is_list v"
| "is_list _ = False"

fun is_dict :: "pyval \<Rightarrow> bool" where
  "is_dict (PDict d) = True"
| "is_dict (PShared n v) = is_dict v"
| "is_dict _ = False"

text \<open>A list, tuple or dictionary written without a number.\<close>

fun unnumbered :: "pyval \<Rightarrow> bool" where
  "unnumbered (PList xs) = True"
| "unnumbered (PTuple xs) = True"
| "unnumbered (PDict d) = True"
| "unnumbered _ = False"

section \<open>Findings and reports\<close>

text \<open>
  A finding is a dictionary with string keys, in the order the detector writes them.
  A report is the dictionary the detector returns: \<open>status\<close> is always there, the two
  lists and the message only on some paths. The message of an error report ends with
  \<open>str(e)\<close> of the exception caught, which is kept as the exception itself.
\<close>

type_synonym finding = "(string \<times> pyval) list"

datatype message = Text string | TextExn string exn

record report =
  status :: string
  failures :: "finding list option"
  warnings :: "finding list option"
  message :: "message option"

text \<open>\<open>failure.get(key)\<close>.\<close>

definition fget :: "finding \<Rightarrow> string \<Rightarrow> pyval" where
  "fget f k = (case map_of f k of None \<Rightarrow> PNone | Some v \<Rightarrow> v)"

text \<open>\<open>failures.get("failures", [])\<close>.\<close>

definition failures_of :: "report \<Rightarrow> finding list" where
  "failures_of r = (case failures r of None \<Rightarrow> [] | Some fs \<Rightarrow> fs)"

text \<open>
  The two lists while the checks run, and the exception that stopped them, if any: the
  lists keep what was appended before the exception.
\<close>

type_synonym acc = "finding list \<times> finding list"

type_synonym step = "acc \<Rightarrow> acc \<times> exn option"

definition add_failure :: "finding \<Rightarrow> step" where
  "add_failure f a = ((fst a @ [f], snd a), None)"

definition add_warning :: "finding \<Rightarrow> step" where
  "add_warning f a = ((fst a, snd a @ [f]), None)"

definition skip :: step where
  "skip a = (a, None)"

definition raise :: "exn \<Rightarrow> step" where
  "raise e a = (a, Some e)"

definition seq :: "step \<Rightarrow> step \<Rightarrow> step" where
  "seq f g a = (case f a of (a', None) \<Rightarrow> g a' | (a', Some e) \<Rightarrow> (a', Some e))"

fun seqs :: "step list \<Rightarrow> step" where
  "seqs [] = skip"
| "seqs (f # fs) = seq f (seqs fs)"

text \<open>\<open>if cond: body\<close>, where evaluating the condition may raise.\<close>

definition if_then :: "exn + bool \<Rightarrow> step \<Rightarrow> step" where
  "if_then c body = (case c of Inl e \<Rightarrow> raise e | Inr b \<Rightarrow> if b then body else skip)"

text \<open>\<open>x = expr\<close> followed by statements that use \<open>x\<close>.\<close>

definition bind_step :: "exn + 'a \<Rightarrow> ('a \<Rightarrow> step) \<Rightarrow> step" where
  "bind_step m body = (case m of Inl e \<Rightarrow> raise e | Inr v \<Rightarrow> body v)"

text \<open>\<open>for x in xs: body\<close>.\<close>

fun for_each :: "('a \<Rightarrow> step) \<Rightarrow> 'a list \<Rightarrow> step" where
  "for_each body [] = skip"
| "for_each body (x # xs) = seq (body x) (for_each body xs)"

text \<open>The report a checker returns: from its \<open>return failures\<close> or from its handler.\<close>

definition finish :: "acc \<times> exn option \<Rightarrow> report" where
  "finish r =
     (case r of
        ((fs, ws), None) \<Rightarrow>
          \<lparr>status = ''success'', failures = Some fs, warnings = Some ws, message = None\<rparr>
      | ((fs, ws), Some e) \<Rightarrow>
          \<lparr>status = ''error'', failures = Some fs, warnings = Some ws,
           message = Some (TextExn ''Erro ao analisar pipeline: '' e)\<rparr>)"

definition mk_finding :: "string \<Rightarrow> string \<Rightarrow> (string \<times> pyval) list \<Rightarrow> string \<Rightarrow> finding" where
  "mk_finding t m extra f =
     [(''type'', PStr t), (''message'', PStr m)] @ extra @ [(''fix'', PStr f)]"

text \<open>The quotes and accented letters of the messages.\<close>

definition sq :: string where "sq = [CHR 0x27]"
definition dq :: string where "dq = [CHR 0x22]"
definition backslash :: string where "backslash = [CHR 0x5C]"
definition a_tilde :: string where "a_tilde = [CHR 0xE3]"
definition a_acute :: string where "a_acute = [CHR 0xE1]"
definition a_circ :: string where "a_circ = [CHR 0xE2]"
definition c_cedil :: string where "c_cedil = [CHR 0xE7]"
definition e_circ :: string where "e_circ = [CHR 0xEA]"
definition i_acute :: string where "i_acute = [CHR 0xED]"
definition o_acute :: string where "o_acute = [CHR 0xF3]"
definition o_tilde :: string where "o_tilde = [CHR 0xF5]"

definition nao :: string where "nao = ''n'' @ a_tilde @ ''o''"
definition Nao :: string where "Nao = ''N'' @ a_tilde @ ''o''"
definition Nao_ha :: string where "Nao_ha = ''N'' @ a_tilde @ ''o h'' @ a_acute"
definition possivel :: string where "possivel = ''Poss'' @ i_acute @ ''vel''"

section \<open>Log heuristics\<close>

text \<open>\<open>if error_logs:\<close> holds for a text that is given and not empty.\<close>

definition logs_given :: "string option \<Rightarrow> bool" where
  "logs_given l = (case l of None \<Rightarrow> False | Some t \<Rightarrow> t \<noteq> [])"

definition log_has :: "string \<Rightarrow> string option \<Rightarrow> exn + bool" where
  "log_has sub l = Inr (case l of None \<Rightarrow> False | Some t \<Rightarrow> str_contains sub t)"

definition w_file_not_found :: finding where
  "w_file_not_found =
     mk_finding ''file_not_found'' (possivel @ '' erro de arquivo '' @ nao @ '' encontrado'') []
       ''Verificar caminhos de arquivos no pipeline''"

definition w_permission_denied :: "string \<Rightarrow> finding" where
  "w_permission_denied hint =
     mk_finding ''permission_denied'' (possivel @ '' erro de permiss'' @ a_tilde @ ''o negada'') [] hint"

definition chmod_hint :: string where
  "chmod_hint = ''Verificar permiss'' @ o_tilde @ ''es de arquivos ou adicionar 'chmod +x' para scripts''"

section \<open>Jenkins: detection\<close>

definition quote_class :: cclass where
  "quote_class = OneOf [(CHR 0x27, CHR 0x27), (CHR 0x22, CHR 0x22)]"

definition not_quote_class :: cclass where
  "not_quote_class = NoneOf [(CHR 0x27, CHR 0x27), (CHR 0x22, CHR 0x22)]"

definition not_brace :: cclass where
  "not_brace = NoneOf [(CHR ''}'', CHR ''}'')]"

definition word_class :: cclass where
  "word_class = OneOf [(CHR ''a'', CHR ''z''), (CHR ''A'', CHR ''Z''), (CHR ''0'', CHR ''9''), (CHR ''_'', CHR ''_'')]"

text \<open>\<open>pipeline\s*\{\<close>, \<open>agent\s*\{\<close>, \<open>agent\s+any\<close>, \<open>stages\s*\{\<close>, \<open>stage\s*\(\<close>, \<open>steps\s*\{\<close>\<close>

definition re_pipeline :: "piece list" where
  "re_pipeline = lit ''pipeline'' @ [A Space Star, A (Chr CHR ''{'') Once]"

definition re_agent_block :: "piece list" where
  "re_agent_block = lit ''agent'' @ [A Space Star, A (Chr CHR ''{'') Once]"

definition re_agent_any :: "piece list" where
  "re_agent_any = lit ''agent'' @ [A Space Plus] @ lit ''any''"

definition re_stages :: "piece list" where
  "re_stages = lit ''stages'' @ [A Space Star, A (Chr CHR ''{'') Once]"

definition re_stage_call :: "piece list" where
  "re_stage_call = lit ''stage'' @ [A Space Star, A (Chr CHR ''('') Once]"

definition re_steps :: "piece list" where
  "re_steps = lit ''steps'' @ [A Space Star, A (Chr CHR ''{'') Once]"

text \<open>\<open>stage\s*\(\s*['"]([^'"]+)['"]\s*\)\s*\{([^\}]*)\}\<close>\<close>

definition re_stage_body :: "piece list" where
  "re_stage_body =
     lit ''stage'' @
     [A Space Star, A (Chr CHR ''('') Once, A Space Star, A quote_class Once,
      Grp [(not_quote_class, Plus)], A quote_class Once, A Space Star, A (Chr CHR '')'') Once,
      A Space Star, A (Chr CHR ''{'') Once, Grp [(not_brace, Star)], A (Chr CHR ''}'') Once]"

text \<open>\<open>\$\{([a-zA-Z0-9_]+)\}\<close>\<close>

definition re_var_ref :: "piece list" where
  "re_var_ref = lit ''${'' @ [Grp [(word_class, Plus)], A (Chr CHR ''}'') Once]"

text \<open>\<open>environment\s*\{([^\}]*)\}\<close> and \<open>parameters\s*\{([^\}]*)\}\<close>\<close>

definition re_environment :: "piece list" where
  "re_environment =
     lit ''environment'' @
     [A Space Star, A (Chr CHR ''{'') Once, Grp [(not_brace, Star)], A (Chr CHR ''}'') Once]"

definition re_parameters :: "piece list" where
  "re_parameters =
     lit ''parameters'' @
     [A Space Star, A (Chr CHR ''{'') Once, Grp [(not_brace, Star)], A (Chr CHR ''}'') Once]"

text \<open>\<open>([a-zA-Z0-9_]+)\s*=\<close> and \<open>([a-zA-Z0-9_]+)\s*\(\<close>\<close>

definition re_env_var :: "piece list" where
  "re_env_var = [Grp [(word_class, Plus)], A Space Star, A (Chr CHR ''='') Once]"

definition re_param_var :: "piece list" where
  "re_param_var = [Grp [(word_class, Plus)], A Space Star, A (Chr CHR ''('') Once]"

text \<open>\<open>m.group(1)\<close> of a search, or nothing if_then the search fails.\<close>

definition group1 :: "(string \<times> string list) option \<Rightarrow> string option" where
  "group1 m = (case m of None \<Rightarrow> None | Some (t, gs) \<Rightarrow> Some (concat (take 1 gs)))"

definition re_found :: "piece list \<Rightarrow> string \<Rightarrow> bool" where
  "re_found ps s = (re_search ps s \<noteq> None)"

definition jenkins_missing_steps :: "string \<Rightarrow> finding" where
  "jenkins_missing_steps stage_name =
     mk_finding ''missing_steps''
       (''Stage '' @ sq @ stage_name @ sq @ '' '' @ nao @ '' tem bloco 'steps' definido'')
       [(''stage'', PStr stage_name)]
       (''Adicionar bloco 'steps { ... }' ao stage '' @ sq @ stage_name @ sq)"

definition jenkins_undefined_variable :: "string \<Rightarrow> finding" where
  "jenkins_undefined_variable var =
     mk_finding ''undefined_variable''
       (possivel @ '' refer'' @ e_circ @ ''ncia a vari'' @ a_acute @ ''vel '' @ nao @
        '' definida: '' @ sq @ var @ sq)
       [(''variable'', PStr var)]
       (''Definir a vari'' @ a_acute @ ''vel '' @ sq @ var @ sq @ '' na se'' @ c_cedil @ a_tilde @
        ''o 'environment' ou como par'' @ a_circ @ ''metro'')"

text \<open>The names declared in the first \<open>environment { }\<close> and \<open>parameters { }\<close> blocks.\<close>

definition jenkins_defined_vars :: "string \<Rightarrow> string list" where
  "jenkins_defined_vars pipeline_content =
     (case group1 (re_search re_environment pipeline_content) of
        None \<Rightarrow> [] | Some body \<Rightarrow> re_findall1 re_env_var body) @
     (case group1 (re_search re_parameters pipeline_content) of
        None \<Rightarrow> [] | Some body \<Rightarrow> re_findall1 re_param_var body)"

definition jenkins_rule_pipeline :: "string \<Rightarrow> step" where
  "jenkins_rule_pipeline pipeline_content =
     if_then (Inr (\<not> re_found re_pipeline pipeline_content))
       (add_failure (mk_finding ''missing_pipeline'' (Nao_ha @ '' bloco 'pipeline' definido'') []
          (''Adicionar bloco 'pipeline { ... }'' @ sq)))"

definition jenkins_rule_agent :: "string \<Rightarrow> step" where
  "jenkins_rule_agent pipeline_content =
     if_then (Inr (\<not> re_found re_agent_block pipeline_content \<and>
                   \<not> re_found re_agent_any pipeline_content))
       (add_failure (mk_finding ''missing_agent'' (Nao_ha @ '' 'agent' definido'') []
          (''Adicionar 'agent any' ou 'agent { ... }'' @ sq)))"

definition jenkins_rule_stages :: "string \<Rightarrow> step" where
  "jenkins_rule_stages pipeline_content =
     if_then (Inr (\<not> re_found re_stages pipeline_content))
       (add_failure (mk_finding ''missing_stages'' (Nao_ha @ '' bloco 'stages' definido'') []
          (''Adicionar bloco 'stages { ... }'' @ sq)))"

definition jenkins_rule_stage :: "string \<Rightarrow> step" where
  "jenkins_rule_stage pipeline_content =
     if_then (Inr (\<not> re_found re_stage_call pipeline_content))
       (add_failure (mk_finding ''missing_stage'' (Nao_ha @ '' nenhum 'stage' definido'') []
          (''Adicionar pelo menos um 'stage(...)'' @ sq)))"

text \<open>Each match of the stage pattern is a pair: the name and the body up to the first \<open>}\<close>.\<close>

definition jenkins_rule_steps :: "string \<Rightarrow> step" where
  "jenkins_rule_steps pipeline_content =
     for_each
       (\<lambda>gs. let stage_name = concat (take 1 gs); stage_content = concat (take 1 (drop 1 gs))
              in if_then (Inr (\<not> re_found re_steps stage_content))
                   (add_failure (jenkins_missing_steps stage_name)))
       (re_findall re_stage_body pipeline_content)"

definition jenkins_rule_vars :: "string \<Rightarrow> step" where
  "jenkins_rule_vars pipeline_content =
     for_each
       (\<lambda>var. if_then (Inr (var \<notin> set (jenkins_defined_vars pipeline_content) \<and>
                             \<not> startswith var ''env.'' \<and>
                             var \<notin> set [''BUILD_NUMBER'', ''JOB_NAME'', ''WORKSPACE'']))
                (add_warning (jenkins_undefined_variable var)))
       (re_findall1 re_var_ref pipeline_content)"

definition jenkins_rule_logs :: "string option \<Rightarrow> step" where
  "jenkins_rule_logs error_logs =
     if_then (Inr (logs_given error_logs))
       (seqs
         [if_then (log_has ''No such file or directory'' error_logs) (add_warning w_file_not_found),
          if_then (log_has ''Permission denied'' error_logs)
            (add_warning (w_permission_denied
               (''Verificar permiss'' @ o_tilde @ ''es de arquivos ou adicionar 'sh '' @ dq @
                ''chmod +x ...'' @ dq @ sq @ '' para scripts''))),
          if_then (log_has ''groovy.lang.MissingPropertyException'' error_logs)
            (add_warning (mk_finding ''missing_property''
               (possivel @ '' erro de propriedade '' @ nao @ '' definida'') []
               (''Verificar vari'' @ a_acute @ ''veis e propriedades usadas no pipeline'')))])"

definition jenkins_checks :: "string \<Rightarrow> string option \<Rightarrow> step" where
  "jenkins_checks pipeline_content error_logs =
     seqs
      [jenkins_rule_pipeline pipeline_content,
       jenkins_rule_agent pipeline_content,
       jenkins_rule_stages pipeline_content,
       jenkins_rule_stage pipeline_content,
       jenkins_rule_steps pipeline_content,
       jenkins_rule_vars pipeline_content,
       jenkins_rule_logs error_logs]"

definition detect_jenkins_failures :: "string \<Rightarrow> string option \<Rightarrow> report" where
  "detect_jenkins_failures pipeline_content error_logs =
     finish (jenkins_checks pipeline_content error_logs ([], []))"

section \<open>Jenkins: repair\<close>

definition jenkins_skeleton :: string where
  "jenkins_skeleton =
     ''pipeline {\<newline>    agent any\<newline>    stages {\<newline>        stage('Build') {\<newline>            steps {\<newline>                echo 'Building...'\<newline>            }\<newline>        }\<newline>    }\<newline>}''"

text \<open>\<open>(pipeline\s*\{)\<close>, \<open>(pipeline\s*\{[^\}]*)\<close>, \<open>(stages\s*\{[^\}]*)\<close>\<close>

definition re_fix_agent :: "piece list" where
  "re_fix_agent = [Grp (lit_atoms ''pipeline'' @ [(Space, Star), (Chr CHR ''{'', Once)])]"

definition re_fix_stages :: "piece list" where
  "re_fix_stages =
     [Grp (lit_atoms ''pipeline'' @ [(Space, Star), (Chr CHR ''{'', Once), (not_brace, Star)])]"

definition re_fix_stage :: "piece list" where
  "re_fix_stage =
     [Grp (lit_atoms ''stages'' @ [(Space, Star), (Chr CHR ''{'', Once), (not_brace, Star)])]"

text \<open>
  \<open>(stage\s*\(\s*['"]{0}['"]\s*\)\s*\{[^\}]*)\<close>: to \<open>re\<close>, the \<open>{0}\<close> after the
  first bracket class is a repetition count.
\<close>

definition re_fix_steps :: "piece list" where
  "re_fix_steps =
     [Grp (lit_atoms ''stage'' @
           [(Space, Star), (Chr CHR ''('', Once), (Space, Star), (quote_class, Times 0),
            (quote_class, Once), (Space, Star), (Chr CHR '')'', Once), (Space, Star),
            (Chr CHR ''{'', Once), (not_brace, Star)])]"

text \<open>
  The replacement templates are raw strings: \<open>re\<close> turns their \<open>\n\<close> into a newline
  and leaves \<open>\'\<close> as the two characters it is.
\<close>

definition bsq :: string where
  "bsq = backslash @ sq"

definition tpl_agent :: "tpart list" where
  "tpl_agent = [TGroup 1, TLit ''\<newline>    agent any'']"

definition tpl_stages :: "tpart list" where
  "tpl_stages =
     [TGroup 1,
      TLit (''\<newline>    stages {\<newline>        stage('' @ bsq @ ''Build'' @ bsq @
            '') {\<newline>            steps {\<newline>                echo '' @ bsq @ ''Building...'' @ bsq @
            ''\<newline>            }\<newline>        }\<newline>    }'')]"

definition tpl_stage :: "tpart list" where
  "tpl_stage =
     [TGroup 1,
      TLit (''\<newline>        stage('' @ bsq @ ''Build'' @ bsq @
            '') {\<newline>            steps {\<newline>                echo '' @ bsq @ ''Building...'' @ bsq @
            ''\<newline>            }\<newline>        }'')]"

definition tpl_steps :: "tpart list" where
  "tpl_steps =
     [TGroup 1,
      TLit (''\<newline>            steps {\<newline>                echo '' @ bsq @ ''Running...'' @ bsq @
            ''\<newline>            }'')]"

text \<open>One turn of the loop over the failures; \<open>str.replace\<close> takes strings only.\<close>

definition fix_jenkins_one :: "finding \<Rightarrow> string \<Rightarrow> exn + string" where
  "fix_jenkins_one failure pipeline_content =
     (let failure_type = fget failure ''type'' in
      if py_eq failure_type (PStr ''missing_pipeline'') then Inr jenkins_skeleton
      else if py_eq failure_type (PStr ''missing_agent'') then
        Inr (re_sub re_fix_agent tpl_agent pipeline_content)
      else if py_eq failure_type (PStr ''missing_stages'') then
        Inr (re_sub re_fix_stages tpl_stages pipeline_content)
      else if py_eq failure_type (PStr ''missing_stage'') then
        Inr (re_sub re_fix_stage tpl_stage pipeline_content)
      else if py_eq failure_type (PStr ''missing_steps'') then
        (let stage_name = fget failure ''stage'' in
         if py_truthy stage_name then
           (case stage_name of
              PStr name \<Rightarrow>
                Inr (str_replace
                       (re_sub re_fix_steps tpl_steps (str_replace pipeline_content name ''{0}''))
                       ''{0}'' name)
            | _ \<Rightarrow> Inl TypeError)
         else Inr pipeline_content)
      else Inr pipeline_content)"

fun fix_jenkins_loop :: "finding list \<Rightarrow> string \<Rightarrow> exn + string" where
  "fix_jenkins_loop [] pipeline_content = Inr pipeline_content"
| "fix_jenkins_loop (failure # rest) pipeline_content =
     bindE (fix_jenkins_one failure pipeline_content) (fix_jenkins_loop rest)"

definition fix_jenkins_failures :: "string \<Rightarrow> report \<Rightarrow> string option" where
  "fix_jenkins_failures pipeline_content rep =
     (case fix_jenkins_loop (failures_of rep) pipeline_content of
        Inl e \<Rightarrow> None
      | Inr text \<Rightarrow> Some text)"

section \<open>Textual representation of values\<close>

function show_nat :: "nat \<Rightarrow> string" where
  "show_nat n =
     (if n < 10 then [char_of (48 + n)]
      else show_nat (n div 10) @ [char_of (48 + n mod 10)])"
  by pat_completeness auto
termination
  by (relation "measure id") auto

declare show_nat.simps [simp del]

definition show_int :: "int \<Rightarrow> string" where
  "show_int i = (if i < 0 then ''-'' @ show_nat (nat (- i)) else show_nat (nat i))"

text \<open>
  \<open>repr\<close> of a string: single quotes unless the text has a single quote and no double
  quote; the quote and the backslash are escaped, and so is every character that
  \<open>str.isprintable\<close> rejects.
\<close>

definition hex_digit :: "nat \<Rightarrow> char" where
  "hex_digit n = (if n < 10 then char_of (48 + n) else char_of (87 + n))"

definition printable :: "char \<Rightarrow> bool" where
  "printable c = (let n = (of_char c :: nat) in (32 \<le> n \<and> n < 127) \<or> (161 \<le> n \<and> n \<noteq> 173))"

definition repr_char :: "char \<Rightarrow> char \<Rightarrow> string" where
  "repr_char q c =
     (if c = q \<or> c = CHR 0x5C then [CHR 0x5C, c]
      else if c = CHR 0x09 then [CHR 0x5C, CHR ''t'']
      else if c = CHR 0x0A then [CHR 0x5C, CHR ''n'']
      else if c = CHR 0x0D then [CHR 0x5C, CHR ''r'']
      else if printable c then [c]
      else [CHR 0x5C, CHR ''x'', hex_digit (of_char c div 16), hex_digit (of_char c mod 16)])"

definition str_repr :: "string \<Rightarrow> string" where
  "str_repr s =
     (let q = (if CHR 0x27 \<in> set s \<and> CHR 0x22 \<notin> set s then CHR 0x22 else CHR 0x27)
      in [q] @ concat (map (repr_char q) s) @ [q])"

fun join :: "string \<Rightarrow> string list \<Rightarrow> string" where
  "join sep [] = []"
| "join sep [x] = x"
| "join sep (x # y # ys) = x @ sep @ join sep (y # ys)"

fun py_repr :: "pyval \<Rightarrow> string" where
  "py_repr PNone = ''None''"
| "py_repr (PBool b) = (if b then ''True'' else ''False'')"
| "py_repr (PInt i) = show_int i"
| "py_repr (PStr s) = str_repr s"
| "py_repr (PList xs) = ''['' @ join '', '' (map py_repr xs) @ '']''"
| "py_repr (PTuple xs) =
     ''('' @ join '', '' (map py_repr xs) @ (if length xs = 1 then '','' else []) @ '')''"
| "py_repr (PDict d) =
     ''{'' @ join '', '' (map (\<lambda>kv. py_repr (fst kv) @ '': '' @ py_repr (snd kv)) d) @ ''}''"
| "py_repr (PShared n v) = py_repr v"

text \<open>\<open>str(v)\<close>, which is also what an f-string writes for \<open>{v}\<close>.\<close>

fun py_str :: "pyval \<Rightarrow> string" where
  "py_str (PStr s) = s"
| "py_str v = py_repr v"

text \<open>\<open>enumerate(xs)\<close>.\<close>

definition enumerate_list :: "'a list \<Rightarrow> (nat \<times> 'a) list" where
  "enumerate_list xs = zip [0..<length xs] xs"

text \<open>\<open>k in d\<close> and \<open>d[k]\<close> where \<open>d\<close> is known to be a dictionary and \<open>k\<close> a string.\<close>

definition has_key :: "string \<Rightarrow> pyval \<Rightarrow> bool" where
  "has_key k v = (case obj v of PDict d \<Rightarrow> dict_find (PStr k) d \<noteq> None | _ \<Rightarrow> False)"

section \<open>The YAML library as a parameter\<close>

text \<open>
  \<open>yaml.safe_load\<close> and \<open>yaml.dump(_, sort_keys=False)\<close> belong to PyYAML, not to the
  repository: the checkers and patchers take them as parameters. Either may raise.
\<close>

type_synonym loader = "string \<Rightarrow> exn + pyval"

type_synonym dumper = "pyval \<Rightarrow> exn + string"

text \<open>The report of \<open>if not pipeline:\<close>.\<close>

definition load_error_report :: report where
  "load_error_report =
     \<lparr>status = ''error'', failures = Some [], warnings = Some [],
      message = Some (Text (Nao @ '' foi poss'' @ i_acute @ ''vel carregar o pipeline como YAML v'' @
                            a_acute @ ''lido''))\<rparr>"

text \<open>
  The shape the three YAML checkers share: the load is inside the \<open>try\<close>, so a parser
  exception reaches the same handler as an exception of a check.
\<close>

definition run_checker :: "loader \<Rightarrow> (pyval \<Rightarrow> step) \<Rightarrow> string \<Rightarrow> report" where
  "run_checker ld checks pipeline_content =
     (case ld pipeline_content of
        Inl e \<Rightarrow> finish (([], []), Some e)
      | Inr pipeline \<Rightarrow>
          if \<not> py_truthy pipeline then load_error_report
          else finish (checks pipeline ([], [])))"

section \<open>GitHub Actions: detection\<close>

definition gh_missing_steps :: "pyval \<Rightarrow> finding" where
  "gh_missing_steps job_name =
     mk_finding ''missing_steps''
       (''Job '' @ sq @ py_str job_name @ sq @ '' '' @ nao @ '' tem steps definidos'')
       [(''job'', job_name)]
       (''Adicionar pelo menos um step ao job '' @ sq @ py_str job_name @ sq)"

definition gh_undefined_secret :: "string \<Rightarrow> pyval \<Rightarrow> nat \<Rightarrow> finding" where
  "gh_undefined_secret secret job_name step_index =
     mk_finding ''undefined_secret''
       (possivel @ '' refer'' @ e_circ @ ''ncia a secret '' @ nao @ '' definido: '' @ sq @ secret @ sq @
        '' no job '' @ sq @ py_str job_name @ sq @ '', step '' @ show_nat (step_index + 1))
       [(''job'', job_name), (''step'', PInt (int step_index)), (''secret'', PStr secret)]
       (''Verificar se o secret '' @ sq @ secret @ sq @ '' est'' @ a_acute @
        '' definido nas configura'' @ c_cedil @ o_tilde @ ''es do reposit'' @ o_acute @ ''rio'')"

definition gh_invalid_needs :: "pyval \<Rightarrow> pyval \<Rightarrow> finding" where
  "gh_invalid_needs job_name need =
     mk_finding ''invalid_needs''
       (''Job '' @ sq @ py_str job_name @ sq @ '' depende de job inexistente: '' @ sq @ py_str need @ sq)
       [(''job'', job_name), (''dependency'', need)]
       (''Corrigir a depend'' @ e_circ @ ''ncia 'needs' para um job existente ou remover'')"

definition gh_missing_runner :: "pyval \<Rightarrow> finding" where
  "gh_missing_runner job_name =
     mk_finding ''missing_runner''
       (''Job '' @ sq @ py_str job_name @ sq @ '' '' @ nao @ '' tem runner (runs-on) definido'')
       [(''job'', job_name)]
       (''Adicionar 'runs-on' ao job '' @ sq @ py_str job_name @ sq)"

text \<open>\<open>\$\{\{\s*secrets\.([a-zA-Z0-9_-]+)\s*\}\}\<close>\<close>

definition re_secret :: "piece list" where
  "re_secret =
     lit ''${{'' @ [A Space Star] @ lit ''secrets.'' @
     [Grp [(OneOf [(CHR ''a'', CHR ''z''), (CHR ''A'', CHR ''Z''), (CHR ''0'', CHR ''9''),
                   (CHR ''_'', CHR ''_''), (CHR ''-'', CHR ''-'')], Plus)],
      A Space Star] @ lit ''}}''"

text \<open>\<open>pipeline["jobs"].items()\<close>\<close>

definition jobs_items :: "pyval \<Rightarrow> exn + (pyval \<times> pyval) list" where
  "jobs_items pipeline = bindE (py_getitem pipeline (PStr ''jobs'')) py_items"

text \<open>\<open>k not in c or not c[k]\<close>\<close>

definition absent_or_empty :: "string \<Rightarrow> pyval \<Rightarrow> exn + bool" where
  "absent_or_empty k c =
     bindE (py_not_in (PStr k) c)
       (\<lambda>b. if b then Inr True else bindE (py_getitem c (PStr k)) (\<lambda>v. Inr (\<not> py_truthy v)))"

definition gh_rule_jobs :: "pyval \<Rightarrow> step" where
  "gh_rule_jobs pipeline =
     if_then (py_not_in (PStr ''jobs'') pipeline)
       (add_failure (mk_finding ''missing_jobs'' (Nao_ha @ '' jobs definidos no pipeline'') []
          (''Adicionar se'' @ c_cedil @ a_tilde @ ''o 'jobs' com pelo menos um job'')))"

definition gh_rule_triggers :: "pyval \<Rightarrow> step" where
  "gh_rule_triggers pipeline =
     if_then (py_not_in (PStr ''on'') pipeline)
       (add_failure (mk_finding ''missing_triggers'' (Nao_ha @ '' triggers (on) definidos no pipeline'') []
          (''Adicionar se'' @ c_cedil @ a_tilde @
           ''o 'on' com pelo menos um trigger (push, pull_request, etc.)'')))"

definition gh_rule_steps :: "pyval \<Rightarrow> step" where
  "gh_rule_steps pipeline =
     if_then (py_in (PStr ''jobs'') pipeline)
       (bind_step (jobs_items pipeline)
          (for_each (\<lambda>(job_name, job).
             if_then (absent_or_empty ''steps'' job) (add_failure (gh_missing_steps job_name)))))"

definition gh_rule_secrets :: "pyval \<Rightarrow> step" where
  "gh_rule_secrets pipeline =
     if_then (py_in (PStr ''jobs'') pipeline)
       (bind_step (jobs_items pipeline)
          (for_each (\<lambda>(job_name, job).
             if_then (py_in (PStr ''steps'') job)
               (bind_step (bindE (py_getitem job (PStr ''steps'')) py_iter)
                  (\<lambda>steps.
                     for_each (\<lambda>(step_index, step).
                        for_each (\<lambda>secret. add_warning (gh_undefined_secret secret job_name step_index))
                          (re_findall1 re_secret (py_str step)))
                       (enumerate_list steps))))))"

definition gh_rule_needs :: "pyval \<Rightarrow> step" where
  "gh_rule_needs pipeline =
     if_then (py_in (PStr ''jobs'') pipeline)
       (bind_step (bindE (py_getitem pipeline (PStr ''jobs'')) py_keys)
          (\<lambda>job_names.
             bind_step (jobs_items pipeline)
               (for_each (\<lambda>(job_name, job).
                  if_then (py_in (PStr ''needs'') job)
                    (bind_step (py_getitem job (PStr ''needs''))
                       (\<lambda>needs.
                          if is_str needs then
                            if_then (bindE (set_contains needs job_names) (\<lambda>b. Inr (\<not> b)))
                              (add_failure (gh_invalid_needs job_name needs))
                          else if is_list needs then
                            bind_step (py_iter needs)
                              (for_each (\<lambda>need.
                                 if_then (bindE (set_contains need job_names) (\<lambda>b. Inr (\<not> b)))
                                   (add_failure (gh_invalid_needs job_name need))))
                          else skip))))))"

definition gh_rule_runner :: "pyval \<Rightarrow> step" where
  "gh_rule_runner pipeline =
     if_then (py_in (PStr ''jobs'') pipeline)
       (bind_step (jobs_items pipeline)
          (for_each (\<lambda>(job_name, job).
             if_then (py_not_in (PStr ''runs-on'') job) (add_failure (gh_missing_runner job_name)))))"

definition gh_rule_logs :: "string option \<Rightarrow> step" where
  "gh_rule_logs error_logs =
     if_then (Inr (logs_given error_logs))
       (seqs
         [if_then (log_has ''No such file or directory'' error_logs) (add_warning w_file_not_found),
          if_then (log_has ''Permission denied'' error_logs)
            (add_warning (w_permission_denied chmod_hint)),
          if_then (log_has ''Error: Process completed with exit code'' error_logs)
            (add_warning (mk_finding ''exit_code_error''
               (''Processo completou com c'' @ o_acute @ ''digo de erro'') []
               ''Verificar comandos e scripts executados no pipeline''))])"

definition gh_checks :: "string option \<Rightarrow> pyval \<Rightarrow> step" where
  "gh_checks error_logs pipeline =
     seqs
      [gh_rule_jobs pipeline,
       gh_rule_triggers pipeline,
       gh_rule_steps pipeline,
       gh_rule_secrets pipeline,
       gh_rule_needs pipeline,
       gh_rule_runner pipeline,
       gh_rule_logs error_logs]"

definition detect_github_actions_failures :: "loader \<Rightarrow> string \<Rightarrow> string option \<Rightarrow> report" where
  "detect_github_actions_failures ld pipeline_content error_logs =
     run_checker ld (gh_checks error_logs) pipeline_content"

section \<open>GitLab CI: detection\<close>

text \<open>\<open>key not in ["stages", "variables", "default", "include"]\<close>\<close>

definition reserved_key :: "pyval \<Rightarrow> bool" where
  "reserved_key key =
     list_ex (py_eq key) [PStr ''stages'', PStr ''variables'', PStr ''default'', PStr ''include'']"

text \<open>\<open>isinstance(value, dict) and ("script" in value or "extends" in value)\<close>\<close>

definition looks_like_job :: "pyval \<Rightarrow> bool" where
  "looks_like_job v = (is_dict v \<and> (has_key ''script'' v \<or> has_key ''extends'' v))"

text \<open>\<open>\$([A-Z0-9_]+)\<close>\<close>

definition re_gitlab_var :: "piece list" where
  "re_gitlab_var =
     lit ''$'' @ [Grp [(OneOf [(CHR ''A'', CHR ''Z''), (CHR ''0'', CHR ''9''), (CHR ''_'', CHR ''_'')], Plus)]]"

definition gitlab_missing_script :: "pyval \<Rightarrow> finding" where
  "gitlab_missing_script key =
     mk_finding ''missing_script''
       (''Job '' @ sq @ py_str key @ sq @ '' '' @ nao @ '' tem script ou extends definido'')
       [(''job'', key)]
       (''Adicionar 'script' ou 'extends' ao job '' @ sq @ py_str key @ sq)"

definition gitlab_undefined_variable :: "string \<Rightarrow> pyval \<Rightarrow> finding" where
  "gitlab_undefined_variable var key =
     mk_finding ''undefined_variable''
       (possivel @ '' refer'' @ e_circ @ ''ncia a vari'' @ a_acute @ ''vel '' @ nao @
        '' definida: '' @ sq @ var @ sq @ '' no job '' @ sq @ py_str key @ sq)
       [(''job'', key), (''variable'', PStr var)]
       (''Definir a vari'' @ a_acute @ ''vel '' @ sq @ var @ sq @ '' na se'' @ c_cedil @ a_tilde @
        ''o 'variables'' @ sq)"

definition gitlab_invalid_stage :: "pyval \<Rightarrow> pyval \<Rightarrow> finding" where
  "gitlab_invalid_stage key stage =
     mk_finding ''invalid_stage''
       (''Job '' @ sq @ py_str key @ sq @ '' usa stage inexistente: '' @ sq @ py_str stage @ sq)
       [(''job'', key), (''stage'', stage)]
       (''Adicionar '' @ sq @ py_str stage @ sq @ '' '' @ [CHR 0xE0] @ '' lista de stages ou corrigir o nome'')"

definition gitlab_rule_stages :: "pyval \<Rightarrow> step" where
  "gitlab_rule_stages pipeline =
     if_then (py_not_in (PStr ''stages'') pipeline)
       (add_warning (mk_finding ''missing_stages'' (Nao_ha @ '' stages definidos no pipeline'') []
          (''Adicionar se'' @ c_cedil @ a_tilde @ ''o 'stages' com os est'' @ a_acute @
           ''gios do pipeline'')))"

text \<open>The count runs over every top-level entry.\<close>

definition gitlab_rule_jobs :: "pyval \<Rightarrow> step" where
  "gitlab_rule_jobs pipeline =
     bind_step (py_items pipeline)
       (\<lambda>items.
          let job_count = length (filter (\<lambda>(key, value). looks_like_job value) items)
          in if_then (Inr (job_count = 0))
               (add_failure (mk_finding ''missing_jobs'' (Nao_ha @ '' jobs definidos no pipeline'') []
                  ''Adicionar pelo menos um job com script ou extends'')))"

definition gitlab_rule_script :: "pyval \<Rightarrow> step" where
  "gitlab_rule_script pipeline =
     bind_step (py_items pipeline)
       (for_each (\<lambda>(key, value).
          if_then (Inr (is_dict value \<and> \<not> reserved_key key))
            (if_then (Inr (\<not> has_key ''script'' value \<and> \<not> has_key ''extends'' value))
               (add_failure (gitlab_missing_script key)))))"

definition gitlab_rule_variables :: "pyval \<Rightarrow> step" where
  "gitlab_rule_variables pipeline =
     if_then (py_in (PStr ''variables'') pipeline)
       (bind_step (bindE (py_getitem pipeline (PStr ''variables'')) py_keys)
          (\<lambda>defined_vars.
             bind_step (py_items pipeline)
               (for_each (\<lambda>(key, value).
                  if_then (Inr (is_dict value \<and> \<not> reserved_key key))
                    (for_each (\<lambda>var.
                       if_then (Inr (\<not> list_ex (py_eq (PStr var)) defined_vars \<and>
                                     \<not> startswith var ''CI_''))
                         (add_warning (gitlab_undefined_variable var key)))
                      (re_findall1 re_gitlab_var (py_str value)))))))"

definition gitlab_rule_stage :: "pyval \<Rightarrow> step" where
  "gitlab_rule_stage pipeline =
     if_then (py_in (PStr ''stages'') pipeline)
       (bind_step (bindE (py_getitem pipeline (PStr ''stages'')) py_set)
          (\<lambda>defined_stages.
             bind_step (py_items pipeline)
               (for_each (\<lambda>(key, value).
                  if_then (Inr (is_dict value \<and> \<not> reserved_key key))
                    (if_then (Inr (has_key ''stage'' value))
                       (bind_step (py_getitem value (PStr ''stage''))
                          (\<lambda>stage.
                             if_then (bindE (set_contains stage defined_stages) (\<lambda>b. Inr (\<not> b)))
                               (add_failure (gitlab_invalid_stage key stage)))))))))"

definition gitlab_rule_logs :: "string option \<Rightarrow> step" where
  "gitlab_rule_logs error_logs =
     if_then (Inr (logs_given error_logs))
       (seqs
         [if_then (log_has ''No such file or directory'' error_logs) (add_warning w_file_not_found),
          if_then (log_has ''Permission denied'' error_logs)
            (add_warning (w_permission_denied chmod_hint)),
          if_then (log_has ''Job failed'' error_logs)
            (add_warning (mk_finding ''job_failed''
               (''Job falhou durante a execu'' @ c_cedil @ a_tilde @ ''o'') []
               ''Verificar comandos e scripts executados no pipeline''))])"

definition gitlab_checks :: "string option \<Rightarrow> pyval \<Rightarrow> step" where
  "gitlab_checks error_logs pipeline =
     seqs
      [gitlab_rule_stages pipeline,
       gitlab_rule_jobs pipeline,
       gitlab_rule_script pipeline,
       gitlab_rule_variables pipeline,
       gitlab_rule_stage pipeline,
       gitlab_rule_logs error_logs]"

definition detect_gitlab_ci_failures :: "loader \<Rightarrow> string \<Rightarrow> string option \<Rightarrow> report" where
  "detect_gitlab_ci_failures ld pipeline_content error_logs =
     run_checker ld (gitlab_checks error_logs) pipeline_content"

section \<open>Azure DevOps: detection\<close>

text \<open>\<open>stage.get('name', f'Stage {stage_index + 1}')\<close>, as the messages write it.\<close>

definition stage_label :: "pyval \<Rightarrow> nat \<Rightarrow> exn + string" where
  "stage_label stage stage_index =
     bindE (py_get stage (PStr ''name'') (PStr (''Stage '' @ show_nat (stage_index + 1))))
       (\<lambda>v. Inr (py_str v))"

definition azure_missing_steps :: "nat \<Rightarrow> finding" where
  "azure_missing_steps job_index =
     mk_finding ''missing_steps''
       (''Job '' @ show_nat (job_index + 1) @ '' '' @ nao @ '' tem steps definidos'')
       [(''job_index'', PInt (int job_index))]
       (''Adicionar pelo menos um step ao job '' @ show_nat (job_index + 1))"

definition azure_missing_jobs :: "string \<Rightarrow> nat \<Rightarrow> finding" where
  "azure_missing_jobs label stage_index =
     mk_finding ''missing_jobs''
       (''Stage '' @ sq @ label @ sq @ '' '' @ nao @ '' tem jobs definidos'')
       [(''stage_index'', PInt (int stage_index))]
       (''Adicionar pelo menos um job ao stage '' @ sq @ label @ sq)"

definition azure_undefined_variable :: "string \<Rightarrow> finding" where
  "azure_undefined_variable var =
     mk_finding ''undefined_variable''
       (possivel @ '' refer'' @ e_circ @ ''ncia a vari'' @ a_acute @ ''vel '' @ nao @
        '' definida: '' @ sq @ var @ sq)
       [(''variable'', PStr var)]
       (''Definir a vari'' @ a_acute @ ''vel '' @ sq @ var @ sq @ '' na se'' @ c_cedil @ a_tilde @
        ''o 'variables'' @ sq)"

definition azure_invalid_depends_on :: "string \<Rightarrow> nat \<Rightarrow> pyval \<Rightarrow> finding" where
  "azure_invalid_depends_on label stage_index depend =
     mk_finding ''invalid_depends_on''
       (''Stage '' @ sq @ label @ sq @ '' depende de stage inexistente: '' @ sq @ py_str depend @ sq)
       [(''stage_index'', PInt (int stage_index)), (''dependency'', depend)]
       (''Corrigir a depend'' @ e_circ @ ''ncia 'dependsOn' para um stage existente ou remover'')"

text \<open>\<open>\$\(([a-zA-Z0-9_.-]+)\)\<close>\<close>

definition re_azure_var :: "piece list" where
  "re_azure_var =
     lit ''$('' @
     [Grp [(OneOf [(CHR ''a'', CHR ''z''), (CHR ''A'', CHR ''Z''), (CHR ''0'', CHR ''9''),
                   (CHR ''_'', CHR ''_''), (CHR ''.'', CHR ''.''), (CHR ''-'', CHR ''-'')], Plus)],
      A (Chr CHR '')'') Once]"

definition azure_rule_triggers :: "pyval \<Rightarrow> step" where
  "azure_rule_triggers pipeline =
     if_then (bindE (py_not_in (PStr ''trigger'') pipeline)
                (\<lambda>b. if b then py_not_in (PStr ''pr'') pipeline else Inr False))
       (add_warning (mk_finding ''missing_triggers''
          (Nao_ha @ '' triggers (trigger/pr) definidos no pipeline'') []
          (''Adicionar se'' @ c_cedil @ a_tilde @ ''o 'trigger' ou 'pr'' @ sq)))"

definition azure_rule_pool :: "pyval \<Rightarrow> step" where
  "azure_rule_pool pipeline =
     if_then (py_not_in (PStr ''pool'') pipeline)
       (add_warning (mk_finding ''missing_pool'' (Nao_ha @ '' 'pool' definido no pipeline'') []
          (''Adicionar se'' @ c_cedil @ a_tilde @ ''o 'pool' com o agente a ser usado'')))"

text \<open>\<open>"stages" not in pipeline and "jobs" not in pipeline and "steps" not in pipeline\<close>\<close>

definition no_structure :: "pyval \<Rightarrow> exn + bool" where
  "no_structure pipeline =
     bindE (py_not_in (PStr ''stages'') pipeline)
       (\<lambda>b. if \<not> b then Inr False
             else bindE (py_not_in (PStr ''jobs'') pipeline)
                    (\<lambda>b. if \<not> b then Inr False else py_not_in (PStr ''steps'') pipeline))"

definition azure_rule_structure :: "pyval \<Rightarrow> step" where
  "azure_rule_structure pipeline =
     if_then (no_structure pipeline)
       (add_failure (mk_finding ''missing_pipeline_structure''
          (Nao_ha @ '' 'stages', 'jobs' ou 'steps' definidos no pipeline'') []
          (''Adicionar pelo menos uma das se'' @ c_cedil @ o_tilde @ ''es: 'stages', 'jobs' ou 'steps'' @ sq)))"

definition azure_rule_steps :: "pyval \<Rightarrow> step" where
  "azure_rule_steps pipeline =
     if_then (py_in (PStr ''jobs'') pipeline)
       (bind_step (bindE (py_getitem pipeline (PStr ''jobs'')) py_iter)
          (\<lambda>jobs.
             for_each (\<lambda>(job_index, job).
                if_then (absent_or_empty ''steps'' job) (add_failure (azure_missing_steps job_index)))
               (enumerate_list jobs)))"

definition azure_rule_jobs :: "pyval \<Rightarrow> step" where
  "azure_rule_jobs pipeline =
     if_then (py_in (PStr ''stages'') pipeline)
       (bind_step (bindE (py_getitem pipeline (PStr ''stages'')) py_iter)
          (\<lambda>stages.
             for_each (\<lambda>(stage_index, stage).
                if_then (absent_or_empty ''jobs'' stage)
                  (bind_step (stage_label stage stage_index)
                     (\<lambda>label. add_failure (azure_missing_jobs label stage_index))))
               (enumerate_list stages)))"

text \<open>The names the \<open>variables\<close> section declares, as a list or as a mapping.\<close>

fun azure_list_vars :: "pyval list \<Rightarrow> exn + pyval list" where
  "azure_list_vars [] = Inr []"
| "azure_list_vars (var # rest) =
     (if is_dict var \<and> has_key ''name'' var then
        bindE (py_getitem var (PStr ''name''))
          (\<lambda>name. if hashable name then bindE (azure_list_vars rest) (\<lambda>ns. Inr (name # ns))
                   else Inl TypeError)
      else azure_list_vars rest)"

definition azure_defined_vars :: "pyval \<Rightarrow> exn + pyval list" where
  "azure_defined_vars pipeline =
     bindE (py_in (PStr ''variables'') pipeline)
       (\<lambda>b. if \<not> b then Inr []
             else bindE (py_getitem pipeline (PStr ''variables''))
                    (\<lambda>vars. case obj vars of
                               PList xs \<Rightarrow> azure_list_vars xs
                             | PDict d \<Rightarrow> Inr (map fst d)
                             | _ \<Rightarrow> Inr []))"

definition azure_rule_variables :: "pyval \<Rightarrow> step" where
  "azure_rule_variables pipeline =
     bind_step (azure_defined_vars pipeline)
       (\<lambda>defined_vars.
          for_each (\<lambda>var.
             if_then (Inr (\<not> list_ex (py_eq (PStr var)) defined_vars \<and>
                           \<not> startswith var ''System.'' \<and> \<not> startswith var ''Build.''))
               (add_warning (azure_undefined_variable var)))
            (re_findall1 re_azure_var (py_str pipeline)))"

text \<open>\<open>[stage.get("name", f"stage_{i}") for i, stage in enumerate(pipeline["stages"])]\<close>\<close>

fun stage_names_of :: "(nat \<times> pyval) list \<Rightarrow> exn + pyval list" where
  "stage_names_of [] = Inr []"
| "stage_names_of ((i, stage) # rest) =
     bindE (py_get stage (PStr ''name'') (PStr (''stage_'' @ show_nat i)))
       (\<lambda>name. bindE (stage_names_of rest) (\<lambda>ns. Inr (name # ns)))"

definition azure_rule_depends :: "pyval \<Rightarrow> step" where
  "azure_rule_depends pipeline =
     if_then (py_in (PStr ''stages'') pipeline)
       (bind_step (bindE (py_getitem pipeline (PStr ''stages'')) py_iter)
          (\<lambda>stages.
             bind_step (stage_names_of (enumerate_list stages))
               (\<lambda>stage_names.
                  for_each (\<lambda>(stage_index, stage).
                     if_then (py_in (PStr ''dependsOn'') stage)
                       (bind_step (py_getitem stage (PStr ''dependsOn''))
                          (\<lambda>depends_on.
                             if is_str depends_on then
                               if_then (Inr (\<not> list_ex (py_eq depends_on) stage_names))
                                 (bind_step (stage_label stage stage_index)
                                    (\<lambda>label. add_failure
                                       (azure_invalid_depends_on label stage_index depends_on)))
                             else if is_list depends_on then
                               bind_step (py_iter depends_on)
                                 (for_each (\<lambda>depend.
                                    if_then (Inr (\<not> list_ex (py_eq depend) stage_names))
                                      (bind_step (stage_label stage stage_index)
                                         (\<lambda>label. add_failure
                                            (azure_invalid_depends_on label stage_index depend)))))
                             else skip)))
                    (enumerate_list stages))))"

definition azure_rule_logs :: "string option \<Rightarrow> step" where
  "azure_rule_logs error_logs =
     if_then (Inr (logs_given error_logs))
       (seqs
         [if_then (log_has ''No such file or directory'' error_logs) (add_warning w_file_not_found),
          if_then (log_has ''Permission denied'' error_logs)
            (add_warning (w_permission_denied chmod_hint)),
          if_then (log_has ''Task failed'' error_logs)
            (add_warning (mk_finding ''task_failed''
               (''Task falhou durante a execu'' @ c_cedil @ a_tilde @ ''o'') []
               (''Verificar configura'' @ c_cedil @ o_tilde @ ''es das tasks no pipeline'')))])"

definition azure_checks :: "string option \<Rightarrow> pyval \<Rightarrow> step" where
  "azure_checks error_logs pipeline =
     seqs
      [azure_rule_triggers pipeline,
       azure_rule_pool pipeline,
       azure_rule_structure pipeline,
       azure_rule_steps pipeline,
       azure_rule_jobs pipeline,
       azure_rule_variables pipeline,
       azure_rule_depends pipeline,
       azure_rule_logs error_logs]"

definition detect_azure_devops_failures :: "loader \<Rightarrow> string \<Rightarrow> string option \<Rightarrow> report" where
  "detect_azure_devops_failures ld pipeline_content error_logs =
     run_checker ld (azure_checks error_logs) pipeline_content"

section \<open>Repair of the YAML kinds\<close>

text \<open>
  The patchers change the loaded document in place: a statement
  \<open>pipeline[k1]...[kn][k] = v\<close> reads the object under the path \<open>k1 ... kn\<close> and changes
  that object. Every place of the document that holds the object then shows it in its
  new state, whatever path the statement took.
\<close>

text \<open>\<open>c[k1]...[kn]\<close>\<close>

fun at_path :: "pyval \<Rightarrow> pyval list \<Rightarrow> exn + pyval" where
  "at_path c [] = Inr c"
| "at_path c (k # ks) = bindE (py_getitem c k) (\<lambda>v. at_path v ks)"

text \<open>
  The container \<open>c\<close> once the object it holds under \<open>k\<close> has changed its state. Nothing
  is assigned: \<open>c\<close> holds the same object as before, so a tuple can show it too.
\<close>

fun holding :: "pyval \<Rightarrow> pyval \<Rightarrow> pyval \<Rightarrow> exn + pyval" where
  "holding (PDict d) k v =
     (if hashable k \<and> dict_find k d \<noteq> None then Inr (PDict (dict_set k v d)) else Inl KeyError)"
| "holding (PList xs) k v =
     (case as_index k of None \<Rightarrow> Inl TypeError
      | Some i \<Rightarrow>
          (case norm_index (length xs) i of
             None \<Rightarrow> Inl IndexError
           | Some j \<Rightarrow> Inr (PList (xs[j := v]))))"
| "holding (PTuple xs) k v =
     (case as_index k of None \<Rightarrow> Inl TypeError
      | Some i \<Rightarrow>
          (case norm_index (length xs) i of
             None \<Rightarrow> Inl IndexError
           | Some j \<Rightarrow> Inr (PTuple (xs[j := v]))))"
| "holding (PShared n c) k v = keep_number n (holding c k v)"
| "holding _ k v = Inl TypeError"

text \<open>The document with the object under a path in its new state, along that path.\<close>

fun along_path :: "pyval \<Rightarrow> pyval list \<Rightarrow> pyval \<Rightarrow> exn + pyval" where
  "along_path c [] new = Inr new"
| "along_path c (k # ks) new =
     bindE (py_getitem c k) (\<lambda>v. bindE (along_path v ks new) (holding c k))"

text \<open>The shared objects met on a path, each with its state.\<close>

fun numbers_of :: "pyval \<Rightarrow> (nat \<times> pyval) list" where
  "numbers_of (PShared n v) = (n, v) # numbers_of v"
| "numbers_of v = []"

fun shared_on :: "pyval \<Rightarrow> pyval list \<Rightarrow> (nat \<times> pyval) list" where
  "shared_on c [] = numbers_of c"
| "shared_on c (k # ks) =
     numbers_of c @ (case py_getitem c k of Inl e \<Rightarrow> [] | Inr v \<Rightarrow> shared_on v ks)"

text \<open>Every place that holds the object number \<open>n\<close> shows the state \<open>new\<close>.\<close>

fun show_state :: "nat \<Rightarrow> pyval \<Rightarrow> pyval \<Rightarrow> pyval" where
  "show_state n new (PShared m v) = (if m = n then PShared n new else PShared m (show_state n new v))"
| "show_state n new (PList xs) = PList (map (show_state n new) xs)"
| "show_state n new (PTuple xs) = PTuple (map (show_state n new) xs)"
| "show_state n new (PDict d) = PDict (map (\<lambda>kv. (fst kv, show_state n new (snd kv))) d)"
| "show_state n new v = v"

definition show_states :: "(nat \<times> pyval) list \<Rightarrow> pyval \<Rightarrow> pyval" where
  "show_states changed doc = fold (\<lambda>nv. show_state (fst nv) (snd nv)) changed doc"

text \<open>
  A statement that changes the object under a path: the path is read, the object is
  changed, and the whole document shows the new state of it and of the shared objects
  that hold it.
\<close>

definition mutate :: "pyval \<Rightarrow> pyval list \<Rightarrow> (pyval \<Rightarrow> exn + pyval) \<Rightarrow> exn + pyval" where
  "mutate doc path change =
     bindE (at_path doc path)
       (\<lambda>target. bindE (change target)
          (\<lambda>new. bindE (along_path doc path new)
             (\<lambda>doc'. Inr (show_states (shared_on doc' path) doc'))))"

text \<open>\<open>doc[k1]...[kn][k] = v\<close>, \<open>del doc[k1]...[kn][k]\<close> and \<open>doc[k1]...[kn].append(x)\<close>\<close>

definition assign :: "pyval \<Rightarrow> pyval list \<Rightarrow> pyval \<Rightarrow> pyval \<Rightarrow> exn + pyval" where
  "assign doc path k v = mutate doc path (\<lambda>c. py_setitem c k v)"

definition delete :: "pyval \<Rightarrow> pyval list \<Rightarrow> pyval \<Rightarrow> exn + pyval" where
  "delete doc path k = mutate doc path (\<lambda>c. py_delitem c k)"

definition append_to :: "pyval \<Rightarrow> pyval list \<Rightarrow> pyval \<Rightarrow> exn + pyval" where
  "append_to doc path x = mutate doc path (\<lambda>c. py_append c x)"

text \<open>The loop over \<open>failures.get("failures", [])\<close>.\<close>

fun fix_loop :: "(finding \<Rightarrow> pyval \<Rightarrow> exn + pyval) \<Rightarrow> finding list \<Rightarrow> pyval \<Rightarrow> exn + pyval" where
  "fix_loop fix_one [] pipeline = Inr pipeline"
| "fix_loop fix_one (failure # rest) pipeline =
     bindE (fix_one failure pipeline) (fix_loop fix_one rest)"

definition run_patcher ::
  "loader \<Rightarrow> dumper \<Rightarrow> (finding \<Rightarrow> pyval \<Rightarrow> exn + pyval) \<Rightarrow> string \<Rightarrow> report \<Rightarrow> string option" where
  "run_patcher ld dump fix_one pipeline_content rep =
     (case ld pipeline_content of
        Inl e \<Rightarrow> None
      | Inr pipeline \<Rightarrow>
          if \<not> py_truthy pipeline then None
          else (case bindE (fix_loop fix_one (failures_of rep) pipeline) dump of
                  Inl e \<Rightarrow> None
                | Inr text \<Rightarrow> Some text))"

text \<open>
  The repair of a dependency field of the job or stage under \<open>path\<close>: a field that is a
  string is deleted; a field that is a list is assigned
  \<open>[x for x in field if x != dependency]\<close>, a new list, and deleted when that list is
  empty. The new list holds the objects the old one holds. When the old list is shared,
  it stays in the document, and a list, tuple or dictionary among these objects is then
  held at two places: the numbering cannot say so, and the case is outside the model.
\<close>

definition drop_dependency :: "pyval \<Rightarrow> pyval list \<Rightarrow> string \<Rightarrow> pyval \<Rightarrow> exn + pyval" where
  "drop_dependency pipeline path field dependency =
     bindE (at_path pipeline path)
       (\<lambda>holder.
          bindE (py_in (PStr field) holder)
            (\<lambda>present.
               if \<not> present then Inr pipeline
               else bindE (py_getitem holder (PStr field))
                      (\<lambda>deps.
                         if is_str deps then delete pipeline path (PStr field)
                         else if is_list deps then
                           bindE (py_iter deps)
                             (\<lambda>xs. let kept = filter (\<lambda>x. \<not> py_eq x dependency) xs in
                                    if deps \<noteq> obj deps \<and> list_ex unnumbered kept then Inl Unmodelled
                                    else
                                    bindE (assign pipeline path (PStr field) (PList kept))
                                      (\<lambda>pipeline'. if kept = [] then delete pipeline' path (PStr field)
                                                    else Inr pipeline'))
                         else Inr pipeline)))"

subsection \<open>GitHub Actions\<close>

definition gh_default_steps :: pyval where
  "gh_default_steps =
     PList [PDict [(PStr ''uses'', PStr ''actions/checkout@v3'')],
            PDict [(PStr ''name'', PStr ''Run a one-line script''),
                   (PStr ''run'', PStr ''echo Hello, world!'')]]"

definition gh_default_jobs :: pyval where
  "gh_default_jobs =
     PDict [(PStr ''build'',
             PDict [(PStr ''runs-on'', PStr ''ubuntu-latest''), (PStr ''steps'', gh_default_steps)])]"

definition gh_default_on :: pyval where
  "gh_default_on =
     PDict [(PStr ''push'', PDict [(PStr ''branches'', PList [PStr ''main''])]),
            (PStr ''pull_request'', PDict [(PStr ''branches'', PList [PStr ''main''])])]"

text \<open>\<open>job_name and job_name in pipeline.get("jobs", {})\<close>\<close>

definition job_known :: "pyval \<Rightarrow> pyval \<Rightarrow> exn + bool" where
  "job_known job_name pipeline =
     (if \<not> py_truthy job_name then Inr False
      else bindE (py_get pipeline (PStr ''jobs'') (PDict [])) (py_in job_name))"

definition gh_fix_one :: "finding \<Rightarrow> pyval \<Rightarrow> exn + pyval" where
  "gh_fix_one failure pipeline =
     (let failure_type = fget failure ''type'' in
      if py_eq failure_type (PStr ''missing_jobs'') then
        assign pipeline [] (PStr ''jobs'') gh_default_jobs
      else if py_eq failure_type (PStr ''missing_triggers'') then
        assign pipeline [] (PStr ''on'') gh_default_on
      else if py_eq failure_type (PStr ''missing_steps'') then
        (let job_name = fget failure ''job'' in
         bindE (job_known job_name pipeline)
           (\<lambda>known. if known then
                       assign pipeline [PStr ''jobs'', job_name] (PStr ''steps'') gh_default_steps
                     else Inr pipeline))
      else if py_eq failure_type (PStr ''invalid_needs'') then
        (let job_name = fget failure ''job''; dependency = fget failure ''dependency'' in
         bindE (if \<not> py_truthy job_name \<or> \<not> py_truthy dependency then Inr False
                else job_known job_name pipeline)
           (\<lambda>known. if known then
                       drop_dependency pipeline [PStr ''jobs'', job_name] ''needs'' dependency
                     else Inr pipeline))
      else if py_eq failure_type (PStr ''missing_runner'') then
        (let job_name = fget failure ''job'' in
         bindE (job_known job_name pipeline)
           (\<lambda>known. if known then
                       assign pipeline [PStr ''jobs'', job_name] (PStr ''runs-on'')
                         (PStr ''ubuntu-latest'')
                     else Inr pipeline))
      else Inr pipeline)"

definition fix_github_actions_failures :: "loader \<Rightarrow> dumper \<Rightarrow> string \<Rightarrow> report \<Rightarrow> string option" where
  "fix_github_actions_failures ld dump pipeline_content rep =
     run_patcher ld dump gh_fix_one pipeline_content rep"

subsection \<open>GitLab CI\<close>

definition gitlab_default_stages :: pyval where
  "gitlab_default_stages = PList [PStr ''build'', PStr ''test'', PStr ''deploy'']"

definition gitlab_fix_one :: "finding \<Rightarrow> pyval \<Rightarrow> exn + pyval" where
  "gitlab_fix_one failure pipeline =
     (let failure_type = fget failure ''type'' in
      if py_eq failure_type (PStr ''missing_stages'') then
        assign pipeline [] (PStr ''stages'') gitlab_default_stages
      else if py_eq failure_type (PStr ''missing_jobs'') then
        assign pipeline [] (PStr ''build'')
          (PDict [(PStr ''stage'', PStr ''build''),
                  (PStr ''script'', PList [PStr (''echo 'Building...'' @ sq)])])
      else if py_eq failure_type (PStr ''missing_script'') then
        (let job_name = fget failure ''job'' in
         bindE (if \<not> py_truthy job_name then Inr False else py_in job_name pipeline)
           (\<lambda>known. if known then
                       assign pipeline [job_name] (PStr ''script'')
                         (PList [PStr (''echo 'Running...'' @ sq)])
                     else Inr pipeline))
      else if py_eq failure_type (PStr ''invalid_stage'') then
        (let job_name = fget failure ''job''; stage = fget failure ''stage'' in
         bindE (if \<not> py_truthy job_name \<or> \<not> py_truthy stage then Inr False
                else py_in job_name pipeline)
           (\<lambda>known.
              if known then
                bindE (py_not_in (PStr ''stages'') pipeline)
                  (\<lambda>absent.
                     if absent then assign pipeline [] (PStr ''stages'') gitlab_default_stages
                     else bindE (bindE (py_getitem pipeline (PStr ''stages'')) (py_not_in stage))
                            (\<lambda>missing. if missing then append_to pipeline [PStr ''stages''] stage
                                        else Inr pipeline))
              else Inr pipeline))
      else Inr pipeline)"

definition fix_gitlab_ci_failures :: "loader \<Rightarrow> dumper \<Rightarrow> string \<Rightarrow> report \<Rightarrow> string option" where
  "fix_gitlab_ci_failures ld dump pipeline_content rep =
     run_patcher ld dump gitlab_fix_one pipeline_content rep"

subsection \<open>Azure DevOps\<close>

definition azure_default_steps :: pyval where
  "azure_default_steps =
     PList [PDict [(PStr ''checkout'', PStr ''self'')],
            PDict [(PStr ''script'', PStr ''echo Hello, world!''),
                   (PStr ''displayName'', PStr ''Run a one-line script'')]]"

definition azure_default_jobs :: pyval where
  "azure_default_jobs =
     PList [PDict [(PStr ''job'', PStr ''build''), (PStr ''steps'', azure_default_steps)]]"

text \<open>\<open>index is not None and index < len(pipeline.get(section, []))\<close>\<close>

definition index_known :: "pyval \<Rightarrow> string \<Rightarrow> pyval \<Rightarrow> exn + bool" where
  "index_known index section pipeline =
     (if index = PNone then Inr False
      else bindE (py_get pipeline (PStr section) (PList []))
             (\<lambda>c. bindE (py_len c)
                (\<lambda>n. case as_index index of
                        None \<Rightarrow> Inl TypeError
                      | Some i \<Rightarrow> Inr (i < int n))))"

definition azure_fix_one :: "finding \<Rightarrow> pyval \<Rightarrow> exn + pyval" where
  "azure_fix_one failure pipeline =
     (let failure_type = fget failure ''type'' in
      if py_eq failure_type (PStr ''missing_triggers'') then
        assign pipeline [] (PStr ''trigger'') (PList [PStr ''main''])
      else if py_eq failure_type (PStr ''missing_pool'') then
        assign pipeline [] (PStr ''pool'') (PDict [(PStr ''vmImage'', PStr ''ubuntu-latest'')])
      else if py_eq failure_type (PStr ''missing_pipeline_structure'') then
        bindE (no_structure pipeline)
          (\<lambda>none. if none then assign pipeline [] (PStr ''jobs'') azure_default_jobs
                   else Inr pipeline)
      else if py_eq failure_type (PStr ''missing_steps'') then
        (let job_index = fget failure ''job_index'' in
         bindE (index_known job_index ''jobs'' pipeline)
           (\<lambda>known. if known then
                       assign pipeline [PStr ''jobs'', job_index] (PStr ''steps'') azure_default_steps
                     else Inr pipeline))
      else if py_eq failure_type (PStr ''missing_jobs'') then
        (let stage_index = fget failure ''stage_index'' in
         bindE (index_known stage_index ''stages'' pipeline)
           (\<lambda>known. if known then
                       assign pipeline [PStr ''stages'', stage_index] (PStr ''jobs'') azure_default_jobs
                     else Inr pipeline))
      else if py_eq failure_type (PStr ''invalid_depends_on'') then
        (let stage_index = fget failure ''stage_index''; dependency = fget failure ''dependency'' in
         bindE (if stage_index = PNone \<or> \<not> py_truthy dependency then Inr False
                else index_known stage_index ''stages'' pipeline)
           (\<lambda>known. if known then
                       drop_dependency pipeline [PStr ''stages'', stage_index] ''dependsOn'' dependency
                     else Inr pipeline))
      else Inr pipeline)"

definition fix_azure_devops_failures :: "loader \<Rightarrow> dumper \<Rightarrow> string \<Rightarrow> report \<Rightarrow> string option" where
  "fix_azure_devops_failures ld dump pipeline_content rep =
     run_patcher ld dump azure_fix_one pipeline_content rep"

section \<open>The dispatcher\<close>

text \<open>
  Each checker and patcher catches every exception itself, so the handlers of the two
  dispatching methods are never reached.
\<close>

definition detect_failures :: "loader \<Rightarrow> string \<Rightarrow> string \<Rightarrow> string option \<Rightarrow> report" where
  "detect_failures ld pipeline_content pipeline_type error_logs =
     (if pipeline_type = ''github_actions'' then
        detect_github_actions_failures ld pipeline_content error_logs
      else if pipeline_type = ''gitlab_ci'' then
        detect_gitlab_ci_failures ld pipeline_content error_logs
      else if pipeline_type = ''jenkins'' then
        detect_jenkins_failures pipeline_content error_logs
      else if pipeline_type = ''azure_devops'' then
        detect_azure_devops_failures ld pipeline_content error_logs
      else \<lparr>status = ''error'', failures = None, warnings = None,
            message = Some (Text (''Tipo de pipeline '' @ nao @ '' suportado: '' @ pipeline_type))\<rparr>)"

definition fix_failures :: "loader \<Rightarrow> dumper \<Rightarrow> string \<Rightarrow> string \<Rightarrow> report \<Rightarrow> string option" where
  "fix_failures ld dump pipeline_content pipeline_type rep =
     (if pipeline_type = ''github_actions'' then
        fix_github_actions_failures ld dump pipeline_content rep
      else if pipeline_type = ''gitlab_ci'' then
        fix_gitlab_ci_failures ld dump pipeline_content rep
      else if pipeline_type = ''jenkins'' then
        fix_jenkins_failures pipeline_content rep
      else if pipeline_type = ''azure_devops'' then
        fix_azure_devops_failures ld dump pipeline_content rep
      else None)"

section \<open>PyYAML on small block documents\<close>

text \<open>
  To run the detector on a concrete text, \<open>yaml.safe_load\<close> and \<open>yaml.dump\<close> are
  modelled on a fragment of YAML: block mappings and block sequences laid out by
  indentation, one-line plain scalars, one-line quoted scalars without escapes, and the
  empty flow collections. Plain scalars are resolved as PyYAML's YAML 1.1 resolver does it
  for the null words, the boolean words (\<open>on\<close>, \<open>yes\<close>, \<open>true\<close>, ... among them) and
  decimal integers. An anchor on a block collection and its aliases load as one object,
  which the document then holds at several places; the tag \<open>!!omap\<close> loads as a list
  of pairs; the safe loader refuses the tags of the \<open>python/\<close> family, which the
  serialiser writes for a tuple. The serialiser numbers the objects it meets twice
  (\<open>&id001\<close>, ...) and writes an alias at the second meeting. On every other text or
  value outside the fragment both models answer \<open>Unmodelled\<close>; the general theorems
  never use them, they take the library as a parameter.
\<close>

definition yaml_null_words :: "string list" where
  "yaml_null_words = [''~'', ''null'', ''Null'', ''NULL'']"

definition yaml_true_words :: "string list" where
  "yaml_true_words = [''yes'', ''Yes'', ''YES'', ''true'', ''True'', ''TRUE'', ''on'', ''On'', ''ON'']"

definition yaml_false_words :: "string list" where
  "yaml_false_words = [''no'', ''No'', ''NO'', ''false'', ''False'', ''FALSE'', ''off'', ''Off'', ''OFF'']"

definition is_digit :: "char \<Rightarrow> bool" where
  "is_digit c = (48 \<le> (of_char c :: nat) \<and> (of_char c :: nat) \<le> 57)"

definition is_letter :: "char \<Rightarrow> bool" where
  "is_letter c =
     (let n = (of_char c :: nat) in (65 \<le> n \<and> n \<le> 90) \<or> (97 \<le> n \<and> n \<le> 122) \<or> n = 95)"

definition digits_value :: "string \<Rightarrow> nat" where
  "digits_value s = foldl (\<lambda>n c. 10 * n + (of_char c - 48)) 0 s"

text \<open>\<open>[-+]?(0|[1-9][0-9]*)\<close>, the decimal branch of the integer resolver.\<close>

definition read_decimal :: "string \<Rightarrow> nat option" where
  "read_decimal s =
     (if s \<noteq> [] \<and> list_all is_digit s \<and> (s = ''0'' \<or> hd s \<noteq> CHR ''0'') then Some (digits_value s)
      else None)"

definition read_int :: "string \<Rightarrow> int option" where
  "read_int s =
     (case s of
        [] \<Rightarrow> None
      | c # cs \<Rightarrow>
          if c = CHR ''-'' then map_option (\<lambda>n. - int n) (read_decimal cs)
          else if c = CHR ''+'' then map_option int (read_decimal cs)
          else map_option int (read_decimal s))"

text \<open>
  The value of a plain scalar. A text that starts like a number, a merge key or a
  document marker and is not a decimal integer may be a float, a timestamp or something
  else the fragment leaves out.
\<close>

definition resolve_plain :: "string \<Rightarrow> pyval option" where
  "resolve_plain s =
     (if s \<in> set yaml_null_words then Some PNone
      else if s \<in> set yaml_true_words then Some (PBool True)
      else if s \<in> set yaml_false_words then Some (PBool False)
      else (case read_int s of
              Some i \<Rightarrow> Some (PInt i)
            | None \<Rightarrow>
                if s = [] \<or> hd s \<in> set ''0123456789+-.<='' then None else Some (PStr s)))"

definition rstrip :: "string \<Rightarrow> string" where
  "rstrip s = rev (dropWhile (\<lambda>c. c = CHR '' '') (rev s))"

definition lstrip :: "string \<Rightarrow> string" where
  "lstrip s = dropWhile (\<lambda>c. c = CHR '' '') s"

definition is_quote :: "char \<Rightarrow> bool" where
  "is_quote c = (c = CHR 0x27 \<or> c = CHR 0x22)"

text \<open>A text that may stand as a plain scalar in a block.\<close>

definition plain_ok :: "string \<Rightarrow> bool" where
  "plain_ok s =
     (s \<noteq> [] \<and> \<not> is_quote (hd s) \<and> hd s \<notin> set ''[]{}#&*!|>%@`,?: '' \<and>
      last s \<noteq> CHR '':'' \<and> last s \<noteq> CHR '' '' \<and> \<not> str_contains '': '' s \<and> CHR ''#'' \<notin> set s)"

text \<open>A quoted scalar at the start of a text: its content and what follows the closing quote.\<close>

definition read_quoted :: "string \<Rightarrow> (string \<times> string) option" where
  "read_quoted s =
     (case s of
        [] \<Rightarrow> None
      | q # cs \<Rightarrow>
          if \<not> is_quote q then None
          else (let body = takeWhile (\<lambda>c. c \<noteq> q) cs in
                case drop (length body) cs of
                  [] \<Rightarrow> None
                | c # after \<Rightarrow>
                    if CHR 0x5C \<in> set body \<or> (after \<noteq> [] \<and> hd after = q) then None
                    else Some (body, after)))"

definition read_value :: "string \<Rightarrow> pyval option" where
  "read_value s =
     (if s = ''{}'' then Some (PDict [])
      else if s = ''[]'' then Some (PList [])
      else if s \<noteq> [] \<and> is_quote (hd s) then
        (case read_quoted s of
           Some (body, after) \<Rightarrow> if after = [] then Some (PStr body) else None
         | None \<Rightarrow> None)
      else if plain_ok s then resolve_plain s
      else None)"

text \<open>The first \<open>:\<close> that ends a key: the text before it and the text after it.\<close>

fun find_colon :: "string \<Rightarrow> string \<Rightarrow> (string \<times> string) option" where
  "find_colon [] seen = None"
| "find_colon (c # cs) seen =
     (if c = CHR '':'' \<and> (cs = [] \<or> hd cs = CHR '' '') then Some (rev seen, cs)
      else find_colon cs (c # seen))"

datatype tok =
    TDash nat | TKey nat pyval | TVal nat pyval
  | TAnchor nat string | TAlias nat string | TTag nat string

fun tok_col :: "tok \<Rightarrow> nat" where
  "tok_col (TDash c) = c"
| "tok_col (TKey c k) = c"
| "tok_col (TVal c v) = c"
| "tok_col (TAnchor c a) = c"
| "tok_col (TAlias c a) = c"
| "tok_col (TTag c t) = c"

text \<open>
  What may stand for a value besides a scalar: an anchor \<open>&name\<close> or a tag \<open>!!name\<close>
  at the end of its line, for the block collection on the lines that follow, and an
  alias \<open>*name\<close>.
\<close>

definition is_name :: "string \<Rightarrow> bool" where
  "is_name s = (s \<noteq> [] \<and> list_all (\<lambda>c. is_letter c \<or> is_digit c \<or> c = CHR ''-'') s)"

definition is_tag_name :: "string \<Rightarrow> bool" where
  "is_tag_name s =
     (s \<noteq> [] \<and> list_all (\<lambda>c. is_letter c \<or> is_digit c \<or> c = CHR ''-'' \<or> c = CHR ''/'') s)"

definition read_mark :: "nat \<Rightarrow> string \<Rightarrow> tok list option" where
  "read_mark col s =
     (if startswith s ''&'' \<and> is_name (drop 1 s) then Some [TAnchor col (drop 1 s)]
      else if startswith s ''*'' \<and> is_name (drop 1 s) then Some [TAlias col (drop 1 s)]
      else if startswith s ''!!'' \<and> is_tag_name (drop 2 s) then Some [TTag col (drop 2 s)]
      else None)"

definition key_then :: "nat \<Rightarrow> pyval \<Rightarrow> string \<Rightarrow> tok list option" where
  "key_then col key rest =
     (if rest = [] then Some [TKey col key]
      else (case read_value rest of
              Some v \<Rightarrow> Some [TKey col key, TVal (Suc col) v]
            | None \<Rightarrow> map_option (\<lambda>ts. TKey col key # ts) (read_mark (Suc col) rest)))"

text \<open>One entry of a line, at its column: \<open>key:\<close>, \<open>key: value\<close> or a value.\<close>

definition read_entry :: "nat \<Rightarrow> string \<Rightarrow> tok list option" where
  "read_entry col s =
     (if s \<noteq> [] \<and> is_quote (hd s) then
        (case read_quoted s of
           None \<Rightarrow> None
         | Some (body, after) \<Rightarrow>
             if after = [] then Some [TVal col (PStr body)]
             else if after = '':'' \<or> startswith after '': '' then
               key_then col (PStr body) (lstrip (drop 1 after))
             else None)
      else (case find_colon s [] of
              None \<Rightarrow>
                (case read_value s of Some v \<Rightarrow> Some [TVal col v] | None \<Rightarrow> read_mark col s)
            | Some (k, rest) \<Rightarrow>
                if \<not> plain_ok (rstrip k) then None
                else (case resolve_plain (rstrip k) of
                        None \<Rightarrow> None
                      | Some key \<Rightarrow> key_then col key (lstrip rest))))"

fun tok_line :: "nat \<Rightarrow> string \<Rightarrow> tok list option" where
  "tok_line col [] = Some []"
| "tok_line col (c # cs) =
     (if c = CHR '' '' then tok_line (Suc col) cs
      else if c = CHR ''-'' \<and> (cs = [] \<or> hd cs = CHR '' '') then
        map_option (\<lambda>ts. TDash col # ts) (tok_line (Suc col) cs)
      else read_entry col (c # cs))"

fun split_lines :: "string \<Rightarrow> string list" where
  "split_lines [] = [[]]"
| "split_lines (c # cs) =
     (if c = CHR 0x0A then [] # split_lines cs
      else (case split_lines cs of [] \<Rightarrow> [[c]] | l # ls \<Rightarrow> (c # l) # ls))"

fun all_some :: "'a option list \<Rightarrow> 'a list option" where
  "all_some [] = Some []"
| "all_some (None # xs) = None"
| "all_some (Some x # xs) = map_option (\<lambda>ys. x # ys) (all_some xs)"

definition tokens_of :: "string \<Rightarrow> tok list option" where
  "tokens_of text =
     map_option concat (all_some (map (\<lambda>l. tok_line 0 (rstrip l)) (split_lines text)))"

text \<open>A later entry with an equal key replaces the value of the earlier one.\<close>

definition build_dict :: "(pyval \<times> pyval) list \<Rightarrow> pyval" where
  "build_dict entries = PDict (foldl (\<lambda>d kv. dict_set (fst kv) (snd kv) d) [] entries)"

text \<open>
  The anchors read so far, the latest first, each with the object it names. An
  anchored list or dictionary is an object that aliases may hold again: it gets the
  next free number when its node ends.
\<close>

type_synonym anchors = "(string \<times> pyval) list"

definition own_collection :: "pyval \<Rightarrow> bool" where
  "own_collection v = (case v of PList xs \<Rightarrow> True | PDict d \<Rightarrow> True | _ \<Rightarrow> False)"

definition name_object :: "string \<Rightarrow> pyval \<Rightarrow> anchors \<Rightarrow> pyval \<times> anchors" where
  "name_object a v env = (PShared (Suc (length env)) v, (a, PShared (Suc (length env)) v) # env)"

text \<open>
  \<open>!!omap\<close>: a sequence of one-entry mappings is constructed as the list of the
  (key, value) tuples.
\<close>

fun pair_of :: "pyval \<Rightarrow> pyval option" where
  "pair_of (PDict [(k, v)]) = Some (PTuple [k, v])"
| "pair_of _ = None"

definition omap_of :: "pyval \<Rightarrow> pyval option" where
  "omap_of v = (case v of PList items \<Rightarrow> map_option PList (all_some (map pair_of items)) | _ \<Rightarrow> None)"

text \<open>The tags of Python's own types, which the safe loader cannot construct.\<close>

fun python_tag :: "tok \<Rightarrow> bool" where
  "python_tag (TTag c t) = startswith t ''python/''"
| "python_tag _ = False"

fun is_property :: "tok \<Rightarrow> bool" where
  "is_property (TAnchor c a) = True"
| "is_property (TTag c t) = True"
| "is_property _ = False"

text \<open>
  The least column of the value of a key at column \<open>c\<close>: right of the key, but a
  sequence may stand at the key's column, also after an anchor or a tag.
\<close>

fun value_column :: "nat \<Rightarrow> tok list \<Rightarrow> nat" where
  "value_column c (t # TDash c' # ts) = (if is_property t \<and> c' = c then c else Suc c)"
| "value_column c ts = Suc c"

text \<open>
  The block structure, by columns. A node starts at a column not left of \<open>m\<close>; a
  sequence is the run of dashes at one column, a mapping the run of keys at one column;
  the value of a key is what follows further right, or a sequence whose dashes stand
  under the key, or nothing. The first argument bounds the depth of the descent. A
  node with a tag of Python's own types is read like the node without the tag; the
  loader then refuses the document.
\<close>

fun parse_node :: "nat \<Rightarrow> nat \<Rightarrow> anchors \<Rightarrow> tok list \<Rightarrow> (pyval \<times> tok list \<times> anchors) option"
and parse_seq :: "nat \<Rightarrow> nat \<Rightarrow> anchors \<Rightarrow> tok list \<Rightarrow> (pyval list \<times> tok list \<times> anchors) option"
and parse_map ::
  "nat \<Rightarrow> nat \<Rightarrow> anchors \<Rightarrow> tok list \<Rightarrow> ((pyval \<times> pyval) list \<times> tok list \<times> anchors) option" where
  "parse_node 0 m env ts = None"
| "parse_node (Suc f) m env [] = None"
| "parse_node (Suc f) m env (TVal c v # ts) = (if m \<le> c then Some (v, ts, env) else None)"
| "parse_node (Suc f) m env (TAlias c a # ts) =
     (if m \<le> c then (case map_of env a of None \<Rightarrow> None | Some v \<Rightarrow> Some (v, ts, env)) else None)"
| "parse_node (Suc f) m env (TAnchor c a # ts) =
     (if m \<le> c then
        (case parse_node f m env ts of
           None \<Rightarrow> None
         | Some (v, r, env') \<Rightarrow>
             if own_collection v then
               Some (fst (name_object a v env'), r, snd (name_object a v env'))
             else None)
      else None)"
| "parse_node (Suc f) m env (TTag c t # ts) =
     (if m \<le> c then
        (case parse_node f m env ts of
           None \<Rightarrow> None
         | Some (v, r, env') \<Rightarrow>
             if t = ''omap'' then map_option (\<lambda>w. (w, r, env')) (omap_of v)
             else if startswith t ''python/'' then Some (v, r, env')
             else None)
      else None)"
| "parse_node (Suc f) m env (TDash c # ts) =
     (if m \<le> c then
        (case parse_seq f c env (TDash c # ts) of
           None \<Rightarrow> None
         | Some (xs, r, env') \<Rightarrow> Some (PList xs, r, env'))
      else None)"
| "parse_node (Suc f) m env (TKey c k # ts) =
     (if m \<le> c then
        (case parse_map f c env (TKey c k # ts) of
           None \<Rightarrow> None
         | Some (d, r, env') \<Rightarrow> Some (build_dict d, r, env'))
      else None)"
| "parse_seq 0 c env ts = None"
| "parse_seq (Suc f) c env [] = Some ([], [], env)"
| "parse_seq (Suc f) c env (TDash c' # ts) =
     (if c' \<noteq> c then Some ([], TDash c' # ts, env)
      else (case (case ts of
                    [] \<Rightarrow> Some (PNone, [], env)
                  | t # rest \<Rightarrow>
                      if c < tok_col t then parse_node f (Suc c) env ts else Some (PNone, ts, env)) of
              None \<Rightarrow> None
            | Some (item, r, env') \<Rightarrow>
                (case parse_seq f c env' r of
                   None \<Rightarrow> None
                 | Some (items, r', env'') \<Rightarrow> Some (item # items, r', env''))))"
| "parse_seq (Suc f) c env (t # ts) = Some ([], t # ts, env)"
| "parse_map 0 c env ts = None"
| "parse_map (Suc f) c env [] = Some ([], [], env)"
| "parse_map (Suc f) c env (TKey c' k # ts) =
     (if c' \<noteq> c then Some ([], TKey c' k # ts, env)
      else (case (case ts of
                    [] \<Rightarrow> Some (PNone, [], env)
                  | t # rest \<Rightarrow>
                      if c < tok_col t then parse_node f (value_column c ts) env ts
                      else if t = TDash c then
                        (case parse_seq f c env ts of
                           None \<Rightarrow> None
                         | Some (xs, r, env') \<Rightarrow> Some (PList xs, r, env'))
                      else Some (PNone, ts, env)) of
              None \<Rightarrow> None
            | Some (v, r, env') \<Rightarrow>
                (case parse_map f c env' r of
                   None \<Rightarrow> None
                 | Some (d, r', env'') \<Rightarrow> Some ((k, v) # d, r', env''))))"
| "parse_map (Suc f) c env (t # ts) = Some ([], t # ts, env)"

definition text_in_fragment :: "string \<Rightarrow> bool" where
  "text_in_fragment text =
     list_all (\<lambda>c. c = CHR 0x0A \<or> (32 \<le> (of_char c :: nat) \<and> (of_char c :: nat) < 127 \<and> c \<noteq> CHR ''#'')) text"

text \<open>A text with no content loads as \<open>None\<close>.\<close>

definition safe_load :: loader where
  "safe_load text =
     (if \<not> text_in_fragment text then Inl Unmodelled
      else (case tokens_of text of
              None \<Rightarrow> Inl Unmodelled
            | Some ts \<Rightarrow>
                if ts = [] then Inr PNone
                else (case parse_node (2 * length ts + 2) 0 [] ts of
                        None \<Rightarrow> Inl Unmodelled
                      | Some (v, r, env) \<Rightarrow>
                          if r \<noteq> [] then Inl Unmodelled
                          else if list_ex python_tag ts then Inl YAMLError
                          else Inr v)))"

subsection \<open>Dumping\<close>

text \<open>
  A string is written plain when it starts with a letter, has only printable ASCII
  characters, no \<open>#\<close>, no \<open>: \<close>, does not end with a colon or a space and is not a
  word the resolver reads as something else; the empty string and the words and
  integers the resolver would read are written in single quotes; any other string is
  outside the fragment.
\<close>

definition dump_str :: "string \<Rightarrow> string option" where
  "dump_str s =
     (if s = [] \<or> (resolve_plain s \<noteq> None \<and> resolve_plain s \<noteq> Some (PStr s)) then Some (sq @ s @ sq)
      else if is_letter (hd s) \<and> plain_ok s \<and> text_in_fragment s \<and> CHR 0x0A \<notin> set s \<and>
              resolve_plain s = Some (PStr s) then Some s
      else None)"

fun scalar_line :: "pyval \<Rightarrow> string option" where
  "scalar_line PNone = Some ''null''"
| "scalar_line (PBool b) = Some (if b then ''true'' else ''false'')"
| "scalar_line (PInt i) = Some (show_int i)"
| "scalar_line (PStr s) = dump_str s"
| "scalar_line v = None"

text \<open>A key is written on one line; the empty string is not (it is written as a complex key).\<close>

definition key_text :: "pyval \<Rightarrow> string option" where
  "key_text k = (if k = PStr [] then None else scalar_line k)"

text \<open>
  The objects the serialiser meets a second time get an anchor, numbered in the order
  of these second meetings; it does not walk into an object again. The state is the
  objects met and the objects met again. Keys are scalars or tuples of scalars, which
  hold no shared object.
\<close>

fun meet :: "pyval \<Rightarrow> nat list \<times> nat list \<Rightarrow> nat list \<times> nat list" where
  "meet (PShared n v) st =
     (if n \<in> set (fst st) then (fst st, if n \<in> set (snd st) then snd st else snd st @ [n])
      else meet v (n # fst st, snd st))"
| "meet (PList xs) st = fold (\<lambda>x. meet x) xs st"
| "meet (PTuple xs) st = fold (\<lambda>x. meet x) xs st"
| "meet (PDict d) st = fold (\<lambda>kv. meet (snd kv)) d st"
| "meet v st = st"

definition anchors_of :: "pyval \<Rightarrow> nat list" where
  "anchors_of doc = snd (meet doc ([], []))"

fun position :: "nat \<Rightarrow> nat list \<Rightarrow> nat" where
  "position n [] = 0"
| "position n (x # xs) = (if x = n then 1 else Suc (position n xs))"

text \<open>\<open>id001\<close>, \<open>id002\<close>, ...\<close>

definition anchor_name :: "nat list \<Rightarrow> nat \<Rightarrow> string" where
  "anchor_name again n =
     (let t = show_nat (position n again) in ''id'' @ replicate (3 - length t) CHR ''0'' @ t)"

text \<open>
  What a node gives to the line of its key or dash, and the lines below: a scalar, an
  empty collection or an alias stands on that line; a block stands below, with its
  anchor or tag on that line, and is a mapping or a sequence.
\<close>

datatype shape = Inline string | Block string bool "string list"

definition indent2 :: "string \<Rightarrow> string" where
  "indent2 l = ''  '' @ l"

text \<open>
  The lines of an entry and of an item: a mapping under a key is indented, a sequence
  under a key is not, and the first line of a block item follows its dash unless the
  dash is followed by an anchor or a tag.
\<close>

fun entry_lines :: "string \<Rightarrow> shape \<Rightarrow> string list" where
  "entry_lines kt (Inline t) = [kt @ '': '' @ t]"
| "entry_lines kt (Block h m ls) =
     (kt @ '':'' @ (if h = [] then [] else '' '' @ h)) # (if m then map indent2 ls else ls)"

fun item_lines :: "shape \<Rightarrow> string list" where
  "item_lines (Inline t) = [''- '' @ t]"
| "item_lines (Block h m ls) =
     (if h = [] then (case ls of [] \<Rightarrow> [] | l # rest \<Rightarrow> (''- '' @ l) # map indent2 rest)
      else (''- '' @ h) # map indent2 ls)"

text \<open>
  The lines of the children of a node, one child after the other. The state is the
  anchors written so far: the first place of an anchored object writes the anchor and
  the object, a later place the alias.
\<close>

definition then_lines ::
  "string list option \<times> nat list \<Rightarrow> (nat list \<Rightarrow> string list option \<times> nat list) \<Rightarrow>
   string list option \<times> nat list" where
  "then_lines acc child =
     (case acc of
        (None, w) \<Rightarrow> (None, w)
      | (Some ls, w) \<Rightarrow>
          (case child w of (None, w') \<Rightarrow> (None, w') | (Some new, w') \<Rightarrow> (Some (ls @ new), w')))"

definition as_item :: "shape option \<times> nat list \<Rightarrow> string list option \<times> nat list" where
  "as_item r = (map_option item_lines (fst r), snd r)"

definition as_entry :: "pyval \<Rightarrow> shape option \<times> nat list \<Rightarrow> string list option \<times> nat list" where
  "as_entry k r =
     (case key_text k of
        None \<Rightarrow> (None, snd r)
      | Some kt \<Rightarrow> (map_option (entry_lines kt) (fst r), snd r))"

definition as_block :: "string \<Rightarrow> bool \<Rightarrow> string list option \<times> nat list \<Rightarrow> shape option \<times> nat list" where
  "as_block h m r = (map_option (Block h m) (fst r), snd r)"

fun node_shape :: "nat list \<Rightarrow> pyval \<Rightarrow> nat list \<Rightarrow> shape option \<times> nat list" where
  "node_shape again (PShared n v) written =
     (if n \<notin> set again then node_shape again v written
      else if n \<in> set written then (Some (Inline (''*'' @ anchor_name again n)), written)
      else (case node_shape again v (n # written) of
              (Some (Inline t), w) \<Rightarrow> (Some (Inline (''&'' @ anchor_name again n @ '' '' @ t)), w)
            | (Some (Block h m ls), w) \<Rightarrow>
                (if h = [] then (Some (Block (''&'' @ anchor_name again n) m ls), w) else (None, w))
            | (None, w) \<Rightarrow> (None, w)))"
| "node_shape again (PList xs) written =
     (if xs = [] then (Some (Inline ''[]''), written)
      else as_block [] False
             (fold (\<lambda>x acc. then_lines acc (\<lambda>w. as_item (node_shape again x w))) xs
                (Some [], written)))"
| "node_shape again (PTuple xs) written =
     (if xs = [] then (None, written)
      else as_block ''!!python/tuple'' False
             (fold (\<lambda>x acc. then_lines acc (\<lambda>w. as_item (node_shape again x w))) xs
                (Some [], written)))"
| "node_shape again (PDict d) written =
     (if d = [] then (Some (Inline ''{}''), written)
      else as_block [] True
             (fold (\<lambda>kv acc. then_lines acc (\<lambda>w. as_entry (fst kv) (node_shape again (snd kv) w))) d
                (Some [], written)))"
| "node_shape again v written = (map_option Inline (scalar_line v), written)"

text \<open>
  Lines stay below the width at which the emitter starts folding. A plain scalar as the
  whole document is followed by the document end marker.
\<close>

definition yaml_dump :: dumper where
  "yaml_dump v =
     (case fst (node_shape (anchors_of v) v []) of
        None \<Rightarrow> Inl Unmodelled
      | Some (Block h m ls) \<Rightarrow>
          if list_all (\<lambda>l. length l < 80) ((if h = [] then [] else [h]) @ ls) then
            Inr (concat (map (\<lambda>l. l @ [CHR 0x0A]) ((if h = [] then [] else [h]) @ ls)))
          else Inl Unmodelled
      | Some (Inline t) \<Rightarrow>
          if length t \<ge> 80 then Inl Unmodelled
          else if is_dict v \<or> is_list v \<or> (t \<noteq> [] \<and> hd t = CHR 0x27) then Inr (t @ [CHR 0x0A])
          else Inr (t @ [CHR 0x0A] @ ''...'' @ [CHR 0x0A]))"

section \<open>Example documents\<close>

text \<open>The workflow of the specification's concrete scenario.\<close>

definition scenario_text :: string where
  "scenario_text =
     ''on:\<newline>  push: {}\<newline>jobs:\<newline>  build:\<newline>    steps:\<newline>      - run: echo hi''"

text \<open>A Jenkinsfile whose only stage has no \<open>steps\<close> block.\<close>

definition jenkins_example :: string where
  "jenkins_example =
     ''pipeline {\<newline>  agent any\<newline>  stages {\<newline>    stage('Build') {\<newline>      echo 'x'\<newline>    }\<newline>  }\<newline>}''"

text \<open>A workflow whose only job has no body.\<close>

definition null_job_text :: string where
  "null_job_text = ''jobs:\<newline>  build:''"

text \<open>Documents that are a scalar and a sequence at top level.\<close>

definition scalar_text :: string where
  "scalar_text = ''hello''"

definition sequence_text :: string where
  "sequence_text = ''- a\<newline>- b''"

text \<open>A GitLab pipeline with a \<open>variables\<close> section and no job.\<close>

definition variables_only_text :: string where
  "variables_only_text = ''variables:\<newline>  script: x''"



text \<open>A report with nothing to repair.\<close>

definition empty_report :: report where
  "empty_report = \<lparr>status = ''success'', failures = Some [], warnings = Some [], message = None\<rparr>"

section \<open>Vocabulary of the statements\<close>

definition structured_kind :: "string \<Rightarrow> bool" where
  "structured_kind kind = (kind \<in> set [''github_actions'', ''gitlab_ci'', ''azure_devops''])"

text \<open>\<open>report.get("warnings", [])\<close> and the \<open>type\<close> fields of a list of findings.\<close>

definition warnings_of :: "report \<Rightarrow> finding list" where
  "warnings_of r = (case warnings r of None \<Rightarrow> [] | Some ws \<Rightarrow> ws)"

definition types_of :: "finding list \<Rightarrow> pyval list" where
  "types_of fs = map (\<lambda>f. fget f ''type'') fs"

text \<open>\<open>doc["jobs"][job][field]\<close>\<close>

definition job_field :: "pyval \<Rightarrow> string \<Rightarrow> string \<Rightarrow> exn + pyval" where
  "job_field doc job field =
     bindE (py_getitem doc (PStr ''jobs''))
       (\<lambda>jobs. bindE (py_getitem jobs (PStr job)) (\<lambda>j. py_getitem j (PStr field)))"

text \<open>The document a patched text loads as.\<close>

definition reload :: "loader \<Rightarrow> string option \<Rightarrow> exn + pyval" where
  "reload ld patched = (case patched of None \<Rightarrow> Inl Unmodelled | Some text \<Rightarrow> ld text)"

text \<open>A step that cannot raise, and a step that only appends to the two lists.\<close>

definition never_raises :: "step \<Rightarrow> bool" where
  "never_raises f = (\<forall>a. snd (f a) = None)"

definition appends_only :: "step \<Rightarrow> bool" where
  "appends_only f = (\<forall>a. \<exists>fs ws. fst (f a) = (fst a @ fs, snd a @ ws))"



text \<open>The text a patcher returns for the document it has patched.\<close>

definition emit :: "dumper \<Rightarrow> pyval \<Rightarrow> string option" where
  "emit dump doc = (case dump doc of Inl e \<Rightarrow> None | Inr out \<Rightarrow> Some out)"

text \<open>A job that is a mapping whose \<open>steps\<close>, if it has any, are a sequence.\<close>

definition job_well_formed :: "pyval \<Rightarrow> bool" where
  "job_well_formed job =
     (case obj job of
        PDict props \<Rightarrow>
          (case dict_find (PStr ''steps'') props of None \<Rightarrow> True | Some steps \<Rightarrow> is_list steps)
      | _ \<Rightarrow> False)"

text \<open>A workflow with a step that reads a secret.\<close>

definition secrets_text :: string where
  "secrets_text =
     ''jobs:\<newline>  deploy:\<newline>    runs-on: ubuntu-latest\<newline>    steps:\<newline>      - uses: actions/checkout@v3\<newline>      - run: deploy ${{ secrets.TOKEN }}''"



text \<open>A workflow in which one job has a step that reads a secret and the next job has no body.\<close>

definition sibling_text :: string where
  "sibling_text =
     ''jobs:\<newline>  a:\<newline>    steps:\<newline>      - run: echo ${{ secrets.FOO }}\<newline>  b:''"


text \<open>A document with an ordered map.\<close>

definition omap_text :: string where
  "omap_text = ''env: !!omap\<newline>  - NAME: x''"

section \<open>Checks that cannot raise\<close>

lemma never_raises_skip: "never_raises skip"
  by (simp add: never_raises_def skip_def)

lemma never_raises_add_failure: "never_raises (add_failure f)"
  by (simp add: never_raises_def add_failure_def)

lemma never_raises_add_warning: "never_raises (add_warning f)"
  by (simp add: never_raises_def add_warning_def)

lemma never_raises_seq:
  assumes "never_raises f" and "never_raises g"
  shows "never_raises (seq f g)"
proof -
  have "snd (seq f g a) = None" for a
  proof -
    obtain a' e where fa: "f a = (a', e)" by (cases "f a")
    from assms(1) fa have e: "e = None" unfolding never_raises_def by (metis snd_conv)
    from assms(2) have "snd (g a') = None" unfolding never_raises_def by blast
    with fa e show ?thesis by (simp add: seq_def)
  qed
  thus ?thesis unfolding never_raises_def by blast
qed

lemma never_raises_seqs: "list_all never_raises fs \<Longrightarrow> never_raises (seqs fs)"
  by (induction fs) (simp_all add: never_raises_skip never_raises_seq)

lemma never_raises_if_then: "never_raises body \<Longrightarrow> never_raises (if_then (Inr b) body)"
  by (simp add: if_then_def never_raises_skip)

lemma never_raises_for_each: "(\<And>x. never_raises (body x)) \<Longrightarrow> never_raises (for_each body xs)"
  by (induction xs) (simp_all add: never_raises_skip never_raises_seq)

lemma never_raises_log_has: "never_raises body \<Longrightarrow> never_raises (if_then (log_has s l) body)"
  by (simp add: log_has_def never_raises_if_then)

lemma jenkins_rule_logs_never_raises: "never_raises (jenkins_rule_logs l)"
  unfolding jenkins_rule_logs_def
  by (intro never_raises_if_then never_raises_seqs)
     (simp add: never_raises_log_has never_raises_add_warning)

lemma jenkins_rule_steps_never_raises: "never_raises (jenkins_rule_steps c)"
  unfolding jenkins_rule_steps_def Let_def
  by (intro never_raises_for_each never_raises_if_then never_raises_add_failure)

lemma jenkins_rule_vars_never_raises: "never_raises (jenkins_rule_vars c)"
  unfolding jenkins_rule_vars_def
  by (intro never_raises_for_each never_raises_if_then never_raises_add_warning)

lemma jenkins_checks_never_raise: "never_raises (jenkins_checks c l)"
  unfolding jenkins_checks_def
  by (intro never_raises_seqs)
     (simp add: jenkins_rule_pipeline_def jenkins_rule_agent_def jenkins_rule_stages_def
        jenkins_rule_stage_def never_raises_if_then never_raises_add_failure
        jenkins_rule_steps_never_raises jenkins_rule_vars_never_raises
        jenkins_rule_logs_never_raises)

lemma finish_no_exception:
  "snd r = None \<Longrightarrow>
   finish r = \<lparr>status = ''success'', failures = Some (fst (fst r)),
               warnings = Some (snd (fst r)), message = None\<rparr>"
  by (cases r) (auto simp: finish_def split: prod.splits)

section \<open>Jenkins detection always succeeds\<close>

text \<open>
  Claim C9. For every pipeline text and every optional log text, detection with kind
  \<open>jenkins\<close> returns a report whose status is \<open>success\<close>: no check of the Jenkins path
  raises, the report carries no error message, and whatever is missing from the text
  shows up only as entries of the failures and warnings lists, both of which are present.
\<close>

theorem jenkins_detect_always_success:
  "status (detect_failures ld pipeline_content ''jenkins'' error_logs) = ''success'' \<and>
   message (detect_failures ld pipeline_content ''jenkins'' error_logs) = None \<and>
   failures (detect_failures ld pipeline_content ''jenkins'' error_logs) \<noteq> None \<and>
   warnings (detect_failures ld pipeline_content ''jenkins'' error_logs) \<noteq> None"
proof -
  have "snd (jenkins_checks pipeline_content error_logs ([], [])) = None"
    using jenkins_checks_never_raise[of pipeline_content error_logs]
    by (simp add: never_raises_def)
  hence "detect_jenkins_failures pipeline_content error_logs =
           \<lparr>status = ''success'',
            failures = Some (fst (fst (jenkins_checks pipeline_content error_logs ([], [])))),
            warnings = Some (snd (fst (jenkins_checks pipeline_content error_logs ([], [])))),
            message = None\<rparr>"
    unfolding detect_jenkins_failures_def by (rule finish_no_exception)
  thus ?thesis by (simp add: detect_failures_def)
qed

section \<open>The concrete scenario\<close>

text \<open>
  Claim C1, evaluated on the code. PyYAML reads the unquoted key \<open>on\<close> of the scenario
  text as the boolean \<open>True\<close>, so the test \<open>"on" not in pipeline\<close> holds and detection
  reports two failures, \<open>missing_triggers\<close> and then \<open>missing_runner\<close> for job
  \<open>build\<close>, not one. Repair with that report does give job \<open>build\<close> the runner
  \<open>ubuntu-latest\<close> (and adds a second, quoted \<open>'on'\<close> section).
\<close>

theorem scenario_detect_and_fix:
  "safe_load scenario_text =
     Inr (PDict [(PBool True, PDict [(PStr ''push'', PDict [])]),
                 (PStr ''jobs'',
                  PDict [(PStr ''build'',
                          PDict [(PStr ''steps'', PList [PDict [(PStr ''run'', PStr ''echo hi'')]])])])]) \<and>
   map (\<lambda>f. (fget f ''type'', fget f ''job''))
     (failures_of (detect_failures safe_load scenario_text ''github_actions'' None)) =
     [(PStr ''missing_triggers'', PNone), (PStr ''missing_runner'', PStr ''build'')] \<and>
   bindE (reload safe_load
            (fix_failures safe_load yaml_dump scenario_text ''github_actions''
               (detect_failures safe_load scenario_text ''github_actions'' None)))
     (\<lambda>doc. job_field doc ''build'' ''runs-on'') = Inr (PStr ''ubuntu-latest'')"
  by code_simp

section \<open>Jenkins: the repair of a stage without steps\<close>

text \<open>
  Claim C2, evaluated on the code. For the example Jenkinsfile detection reports
  \<open>missing_steps\<close> for stage \<open>Build\<close>; repair with that report returns the text
  unchanged, because the repair pattern asks for a quote directly followed by the
  closing parenthesis; detection on the returned text therefore reports the same
  \<open>missing_steps\<close> finding again.
\<close>

theorem jenkins_missing_steps_not_repaired:
  "failures (detect_failures ld jenkins_example ''jenkins'' None) =
     Some [jenkins_missing_steps ''Build''] \<and>
   fix_failures ld dump jenkins_example ''jenkins''
     (detect_failures ld jenkins_example ''jenkins'' None) = Some jenkins_example"
proof -
  have d: "failures (detect_jenkins_failures jenkins_example None) =
             Some [jenkins_missing_steps ''Build'']"
    by code_simp
  have f: "fix_jenkins_failures jenkins_example (detect_jenkins_failures jenkins_example None) =
             Some jenkins_example"
    by code_simp
  show ?thesis using d f by (simp add: detect_failures_def fix_failures_def)
qed

section \<open>GitLab CI: the count of jobs\<close>

text \<open>
  Claim C5, evaluated on the code. In the example pipeline the only top-level entry is
  the reserved section \<open>variables\<close>, which holds a variable named \<open>script\<close>: no entry
  outside the reserved keys looks like a job, yet detection reports no failure at all,
  \<open>missing_jobs\<close> included, because the count does not leave the reserved keys out.
\<close>

theorem gitlab_reserved_entry_counts_as_job:
  "safe_load variables_only_text =
     Inr (PDict [(PStr ''variables'', PDict [(PStr ''script'', PStr ''x'')])]) \<and>
   filter (\<lambda>kv. \<not> reserved_key (fst kv) \<and> looks_like_job (snd kv))
     [(PStr ''variables'', PDict [(PStr ''script'', PStr ''x'')])] = [] \<and>
   status (detect_failures safe_load variables_only_text ''gitlab_ci'' None) = ''success'' \<and>
   failures (detect_failures safe_load variables_only_text ''gitlab_ci'' None) = Some []"
  by code_simp

section \<open>Load errors\<close>

lemma run_checker_parse_error:
  "ld content = Inl e \<Longrightarrow> run_checker ld checks content = finish (([], []), Some e)"
  by (simp add: run_checker_def)

lemma run_checker_empty_document:
  "ld content = Inr d \<Longrightarrow> \<not> py_truthy d \<Longrightarrow> run_checker ld checks content = load_error_report"
  by (simp add: run_checker_def)

lemma run_checker_load_failure:
  assumes "case ld content of Inl e \<Rightarrow> True | Inr d \<Rightarrow> \<not> py_truthy d"
  shows "status (run_checker ld checks content) = ''error'' \<and>
         failures (run_checker ld checks content) = Some [] \<and>
         warnings (run_checker ld checks content) = Some []"
proof (cases "ld content")
  case (Inl e)
  thus ?thesis by (simp add: run_checker_parse_error finish_def)
next
  case (Inr d)
  with assms have "\<not> py_truthy d" by simp
  with Inr show ?thesis by (simp add: run_checker_empty_document load_error_report_def)
qed

lemma structured_kind_cases:
  "structured_kind kind \<Longrightarrow>
   kind = ''github_actions'' \<or> kind = ''gitlab_ci'' \<or> kind = ''azure_devops''"
  by (simp add: structured_kind_def)

lemma detect_failures_structured:
  assumes "structured_kind kind"
  shows "\<exists>checks. detect_failures ld content kind logs = run_checker ld checks content"
proof -
  from assms consider "kind = ''github_actions''" | "kind = ''gitlab_ci''" | "kind = ''azure_devops''"
    using structured_kind_cases by blast
  thus ?thesis
  proof cases
    case 1
    thus ?thesis
      by (intro exI[where x="gh_checks logs"]) (simp add: detect_failures_def detect_github_actions_failures_def)
  next
    case 2
    thus ?thesis
      by (intro exI[where x="gitlab_checks logs"]) (simp add: detect_failures_def detect_gitlab_ci_failures_def)
  next
    case 3
    thus ?thesis
      by (intro exI[where x="azure_checks logs"]) (simp add: detect_failures_def detect_azure_devops_failures_def)
  qed
qed

lemma fix_failures_structured:
  assumes "structured_kind kind"
  shows "\<exists>fix_one. fix_failures ld dump content kind rep = run_patcher ld dump fix_one content rep"
proof -
  from assms consider "kind = ''github_actions''" | "kind = ''gitlab_ci''" | "kind = ''azure_devops''"
    using structured_kind_cases by blast
  thus ?thesis
  proof cases
    case 1
    thus ?thesis
      by (intro exI[where x="gh_fix_one"]) (simp add: fix_failures_def fix_github_actions_failures_def)
  next
    case 2
    thus ?thesis
      by (intro exI[where x="gitlab_fix_one"]) (simp add: fix_failures_def fix_gitlab_ci_failures_def)
  next
    case 3
    thus ?thesis
      by (intro exI[where x="azure_fix_one"]) (simp add: fix_failures_def fix_azure_devops_failures_def)
  qed
qed

text \<open>
  Claim C3, as the code has it. For every text and every structured kind, when the
  text fails to parse or parses to an empty document, the report has status \<open>error\<close>
  and its failures and warnings lists are both empty. (The claim also promises empty
  lists when a check raises; there the code keeps what it had appended, see the
  counterexample.)
\<close>

theorem load_failure_report_has_empty_lists:
  assumes "structured_kind kind"
    and "case ld content of Inl e \<Rightarrow> True | Inr d \<Rightarrow> \<not> py_truthy d"
  shows "status (detect_failures ld content kind logs) = ''error'' \<and>
         failures (detect_failures ld content kind logs) = Some [] \<and>
         warnings (detect_failures ld content kind logs) = Some []"
proof -
  from detect_failures_structured[OF assms(1)] obtain checks
    where "detect_failures ld content kind logs = run_checker ld checks content" by blast
  moreover note run_checker_load_failure[where ld=ld and content=content and checks=checks]
  ultimately show ?thesis using assms(2) by simp
qed

theorem load_failure_report_has_empty_lists_witness:
  "structured_kind ''github_actions'' \<and>
   (case safe_load [] of Inl e \<Rightarrow> True | Inr d \<Rightarrow> \<not> py_truthy d) \<and>
   status (detect_failures safe_load [] ''github_actions'' None) = ''error'' \<and>
   failures (detect_failures safe_load [] ''github_actions'' None) = Some [] \<and>
   warnings (detect_failures safe_load [] ''github_actions'' None) = Some []"
proof -
  have k: "structured_kind ''github_actions''" by (simp add: structured_kind_def)
  have l: "case safe_load [] of Inl e \<Rightarrow> True | Inr d \<Rightarrow> \<not> py_truthy d" by code_simp
  note th = load_failure_report_has_empty_lists
    [where ld=safe_load and content="[]" and kind="''github_actions''" and logs=None, OF k l]
  show ?thesis
    apply (intro conjI)
        apply (rule k)
       apply (rule l)
      apply (rule th[THEN conjunct1])
     apply (rule th[THEN conjunct2, THEN conjunct1])
    apply (rule th[THEN conjunct2, THEN conjunct2])
    done
qed

text \<open>
  Counterexample to claim C3 as stated: the job of the example workflow has no body, so
  it loads as \<open>None\<close>; the check of its steps raises after \<open>missing_triggers\<close> was
  appended, and the report has status \<open>error\<close> together with that finding.
\<close>

theorem error_report_with_partial_findings:
  "safe_load null_job_text = Inr (PDict [(PStr ''jobs'', PDict [(PStr ''build'', PNone)])]) \<and>
   status (detect_failures safe_load null_job_text ''github_actions'' None) = ''error'' \<and>
   types_of (failures_of (detect_failures safe_load null_job_text ''github_actions'' None)) =
     [PStr ''missing_triggers'']"
proof -
  have a: "safe_load null_job_text = Inr (PDict [(PStr ''jobs'', PDict [(PStr ''build'', PNone)])])"
    by code_simp
  have b: "status (detect_failures safe_load null_job_text ''github_actions'' None) = ''error''"
    by code_simp
  have c: "types_of (failures_of (detect_failures safe_load null_job_text ''github_actions'' None)) =
             [PStr ''missing_triggers'']"
    by code_simp
  show ?thesis
    apply (intro conjI)
      apply (rule a)
     apply (rule b)
    apply (rule c)
    done
qed

text \<open>
  Claim C4, as the code has it. For every structured kind, when the text parses to an
  empty document (\<open>None\<close>, an empty mapping, sequence or string, zero, false),
  detection returns status \<open>error\<close> with a message, and repair returns nothing,
  whatever report it is given. (The loader check is \<open>if not pipeline\<close> only: a non-empty
  sequence or scalar at top level goes on to the checks, see the counterexample.)
\<close>

theorem empty_document_is_load_error:
  assumes "structured_kind kind" and "ld content = Inr d" and "\<not> py_truthy d"
  shows "status (detect_failures ld content kind logs) = ''error'' \<and>
         message (detect_failures ld content kind logs) \<noteq> None \<and>
         fix_failures ld dump content kind rep = None"
proof -
  from detect_failures_structured[OF assms(1)] obtain checks
    where d: "detect_failures ld content kind logs = run_checker ld checks content" by blast
  from fix_failures_structured[OF assms(1)] obtain fix_one
    where f: "fix_failures ld dump content kind rep = run_patcher ld dump fix_one content rep" by blast
  from assms(2,3) have "run_patcher ld dump fix_one content rep = None"
    by (simp add: run_patcher_def)
  moreover from assms(2,3) have "run_checker ld checks content = load_error_report"
    by (simp add: run_checker_def)
  ultimately show ?thesis using d f by (simp add: load_error_report_def)
qed

theorem empty_document_is_load_error_witness:
  "structured_kind ''gitlab_ci'' \<and> safe_load ''{}'' = Inr (PDict []) \<and> \<not> py_truthy (PDict []) \<and>
   status (detect_failures safe_load ''{}'' ''gitlab_ci'' None) = ''error'' \<and>
   message (detect_failures safe_load ''{}'' ''gitlab_ci'' None) \<noteq> None \<and>
   fix_failures safe_load yaml_dump ''{}'' ''gitlab_ci'' empty_report = None"
proof -
  have k: "structured_kind ''gitlab_ci''" by (simp add: structured_kind_def)
  have l: "safe_load ''{}'' = Inr (PDict [])" by code_simp
  have t: "\<not> py_truthy (PDict [])" by simp
  note th = empty_document_is_load_error
    [where ld=safe_load and content="''{}''" and kind="''gitlab_ci''" and d="PDict []"
       and logs=None and dump=yaml_dump and rep=empty_report, OF k l t]
  show ?thesis
    apply (intro conjI)
         apply (rule k)
        apply (rule l)
       apply (rule t)
      apply (rule th[THEN conjunct1])
     apply (rule th[THEN conjunct2, THEN conjunct1])
    apply (rule th[THEN conjunct2, THEN conjunct2])
    done
qed

text \<open>
  Counterexample to claim C4 as stated: a scalar at top level with kind
  \<open>github_actions\<close>, and a sequence at top level with kind \<open>azure_devops\<close>, both get a
  report with status \<open>success\<close>.
\<close>

theorem top_level_scalar_and_sequence_are_checked:
  "safe_load scalar_text = Inr (PStr ''hello'') \<and>
   status (detect_failures safe_load scalar_text ''github_actions'' None) = ''success'' \<and>
   safe_load sequence_text = Inr (PList [PStr ''a'', PStr ''b'']) \<and>
   status (detect_failures safe_load sequence_text ''azure_devops'' None) = ''success''"
proof -
  have a: "safe_load scalar_text = Inr (PStr ''hello'')"
    by code_simp
  have b: "status (detect_failures safe_load scalar_text ''github_actions'' None) = ''success''"
    by code_simp
  have c: "safe_load sequence_text = Inr (PList [PStr ''a'', PStr ''b''])"
    by code_simp
  have d: "status (detect_failures safe_load sequence_text ''azure_devops'' None) = ''success''"
    by code_simp
  show ?thesis
    apply (intro conjI)
       apply (rule a)
      apply (rule b)
     apply (rule c)
    apply (rule d)
    done
qed

section \<open>Repair with nothing to repair\<close>

lemma run_patcher_no_failures:
  assumes "ld content = Inr d" and "py_truthy d" and "failures_of rep = []"
  shows "run_patcher ld dump fix_one content rep = emit dump d"
  using assms by (simp add: run_patcher_def emit_def bindE_def)

text \<open>
  Claim C10, as the code has it. For the structured kinds, when the report has no
  failure (its warnings do not matter) and the text parses to a non-empty document,
  repair returns what the serialiser makes of the parsed document, and nothing when the
  serialiser raises. That text is in general not the input text, and parsing it need
  not give the parsed document back, see the counterexample.
\<close>

theorem fix_without_failures_is_dump_of_load:
  assumes "structured_kind kind"
    and "ld content = Inr d" and "py_truthy d"
    and "failures_of rep = []"
  shows "fix_failures ld dump content kind rep = emit dump d"
proof -
  from fix_failures_structured[OF assms(1)] obtain fix_one
    where "fix_failures ld dump content kind rep = run_patcher ld dump fix_one content rep" by blast
  moreover from assms(2,3,4) have "run_patcher ld dump fix_one content rep = emit dump d"
    by (simp add: run_patcher_def emit_def bindE_def)
  ultimately show ?thesis by simp
qed

theorem fix_without_failures_is_dump_of_load_witness:
  "structured_kind ''github_actions'' \<and>
   safe_load scenario_text =
     Inr (PDict [(PBool True, PDict [(PStr ''push'', PDict [])]),
                 (PStr ''jobs'',
                  PDict [(PStr ''build'',
                          PDict [(PStr ''steps'', PList [PDict [(PStr ''run'', PStr ''echo hi'')]])])])]) \<and>
   failures_of (empty_report\<lparr>warnings := Some [w_file_not_found]\<rparr>) = [] \<and>
   fix_failures safe_load yaml_dump scenario_text ''github_actions''
     (empty_report\<lparr>warnings := Some [w_file_not_found]\<rparr>) =
     Some ''true:\<newline>  push: {}\<newline>jobs:\<newline>  build:\<newline>    steps:\<newline>    - run: echo hi\<newline>'' \<and>
   ''true:\<newline>  push: {}\<newline>jobs:\<newline>  build:\<newline>    steps:\<newline>    - run: echo hi\<newline>'' \<noteq> scenario_text"
proof -
  let ?d = "PDict [(PBool True, PDict [(PStr ''push'', PDict [])]),
                   (PStr ''jobs'',
                    PDict [(PStr ''build'',
                            PDict [(PStr ''steps'', PList [PDict [(PStr ''run'', PStr ''echo hi'')]])])])]"
  let ?out = "''true:\<newline>  push: {}\<newline>jobs:\<newline>  build:\<newline>    steps:\<newline>    - run: echo hi\<newline>''"
  let ?rep = "empty_report\<lparr>warnings := Some [w_file_not_found]\<rparr>"
  have k: "structured_kind ''github_actions''" by (simp add: structured_kind_def)
  have l: "safe_load scenario_text = Inr ?d" by code_simp
  have t: "py_truthy ?d" by simp
  have r: "failures_of ?rep = []" by (simp add: failures_of_def empty_report_def)
  have o: "emit yaml_dump ?d = Some ?out" by code_simp
  have n: "?out \<noteq> scenario_text" by code_simp
  note th = fix_without_failures_is_dump_of_load
    [where ld=safe_load and dump=yaml_dump and content=scenario_text and kind="''github_actions''"
       and d="?d" and rep="?rep", OF k l t r]
  show ?thesis
    apply (intro conjI)
        apply (rule k)
       apply (rule l)
      apply (rule r)
     apply (rule trans[OF th o])
    apply (rule n)
    done
qed

text \<open>
  Counterexample to claim C10 as stated: a workflow whose \<open>env\<close> is an ordered map
  (\<open>!!omap\<close>), which the safe loader reads as a list of pairs. With an empty report,
  repair returns the serialiser's text, where each pair is written with the tag
  \<open>!!python/tuple\<close>; the safe loader refuses that tag, so the returned text does not
  parse at all, let alone to the document the input parsed to.
\<close>

theorem ordered_map_does_not_round_trip:
  "safe_load omap_text =
     Inr (PDict [(PStr ''env'', PList [PTuple [PStr ''NAME'', PStr ''x'']])]) \<and>
   failures_of empty_report = [] \<and>
   fix_failures safe_load yaml_dump omap_text ''github_actions'' empty_report =
     Some ''env:\<newline>- !!python/tuple\<newline>  - NAME\<newline>  - x\<newline>'' \<and>
   reload safe_load (fix_failures safe_load yaml_dump omap_text ''github_actions'' empty_report) =
     Inl YAMLError"
  by code_simp

section \<open>Checks only append\<close>

lemma appends_only_skip: "appends_only skip"
  by (simp add: appends_only_def skip_def)

lemma appends_only_raise: "appends_only (raise e)"
  by (simp add: appends_only_def raise_def)

lemma appends_only_add_failure: "appends_only (add_failure f)"
  by (simp add: appends_only_def add_failure_def)

lemma appends_only_add_warning: "appends_only (add_warning f)"
  by (simp add: appends_only_def add_warning_def)

lemma appends_only_seq:
  assumes "appends_only f" and "appends_only g"
  shows "appends_only (seq f g)"
proof -
  have "\<exists>fs ws. fst (seq f g a) = (fst a @ fs, snd a @ ws)" for a
  proof -
    obtain a' e where fa: "f a = (a', e)" by (cases "f a")
    from assms(1) obtain fs ws where 1: "fst (f a) = (fst a @ fs, snd a @ ws)"
      unfolding appends_only_def by blast
    with fa have a': "a' = (fst a @ fs, snd a @ ws)" by simp
    show ?thesis
    proof (cases e)
      case None
      from assms(2) obtain fs' ws' where "fst (g a') = (fst a' @ fs', snd a' @ ws')"
        unfolding appends_only_def by blast
      with a' have "fst (g a') = (fst a @ (fs @ fs'), snd a @ (ws @ ws'))" by simp
      moreover from fa None have "seq f g a = g a'" by (simp add: seq_def)
      ultimately show ?thesis by metis
    next
      case (Some x)
      with fa have "seq f g a = (a', Some x)" by (simp add: seq_def)
      with a' have "fst (seq f g a) = (fst a @ fs, snd a @ ws)" by simp
      thus ?thesis by blast
    qed
  qed
  thus ?thesis unfolding appends_only_def by blast
qed

lemma appends_only_seqs: "list_all appends_only fs \<Longrightarrow> appends_only (seqs fs)"
  by (induction fs) (simp_all add: appends_only_skip appends_only_seq)

lemma appends_only_if_then: "appends_only body \<Longrightarrow> appends_only (if_then c body)"
  by (cases c) (simp_all add: if_then_def appends_only_raise appends_only_skip)

lemma appends_only_bind_step: "(\<And>v. appends_only (body v)) \<Longrightarrow> appends_only (bind_step m body)"
  by (cases m) (simp_all add: bind_step_def appends_only_raise)

lemma appends_only_for_each: "(\<And>x. appends_only (body x)) \<Longrightarrow> appends_only (for_each body xs)"
  by (induction xs) (simp_all add: appends_only_skip appends_only_seq)

lemma appends_only_pair:
  "(\<And>k v. appends_only (body k v)) \<Longrightarrow> appends_only (case x of (k, v) \<Rightarrow> body k v)"
  by (cases x) simp

lemma appends_only_if:
  "appends_only f \<Longrightarrow> appends_only g \<Longrightarrow> appends_only (if b then f else g)"
  by simp

lemma never_raises_for_each_on:
  "(\<And>x. x \<in> set xs \<Longrightarrow> never_raises (body x)) \<Longrightarrow> never_raises (for_each body xs)"
  by (induction xs) (simp_all add: never_raises_skip never_raises_seq)

lemma never_raises_bind_step: "never_raises (body v) \<Longrightarrow> never_raises (bind_step (Inr v) body)"
  by (simp add: bind_step_def)

section \<open>Where a warning ends up\<close>

lemma warned_seq_first:
  assumes "w \<in> set (snd (fst (f a)))" and "appends_only g"
  shows "w \<in> set (snd (fst (seq f g a)))"
proof -
  obtain a' e where fa: "f a = (a', e)" by (cases "f a")
  with assms(1) have w: "w \<in> set (snd a')" by simp
  show ?thesis
  proof (cases e)
    case None
    from assms(2) obtain fs ws where "fst (g a') = (fst a' @ fs, snd a' @ ws)"
      unfolding appends_only_def by blast
    with w have "w \<in> set (snd (fst (g a')))" by simp
    with fa None show ?thesis by (simp add: seq_def)
  next
    case (Some x)
    with fa w show ?thesis by (simp add: seq_def)
  qed
qed

lemma warned_seq_later:
  assumes "never_raises f" and "\<And>a'. w \<in> set (snd (fst (g a')))"
  shows "w \<in> set (snd (fst (seq f g a)))"
proof -
  obtain a' e where fa: "f a = (a', e)" by (cases "f a")
  with assms(1) have "e = None" unfolding never_raises_def by (metis snd_conv)
  with fa have "seq f g a = g a'" by (simp add: seq_def)
  with assms(2) show ?thesis by simp
qed

lemma warned_for_each:
  assumes "x \<in> set xs"
    and "\<And>y. y \<in> set xs \<Longrightarrow> never_raises (body y)"
    and "\<And>y. appends_only (body y)"
    and "\<And>a. w \<in> set (snd (fst (body x a)))"
  shows "w \<in> set (snd (fst (for_each body xs a)))"
  using assms(1,2)
proof (induction xs arbitrary: a)
  case Nil
  thus ?case by simp
next
  case (Cons y ys)
  show ?case
  proof (cases "x = y")
    case True
    have "w \<in> set (snd (fst (seq (body y) (for_each body ys) a)))"
      using assms(4) True appends_only_for_each[of body ys, OF assms(3)]
      by (intro warned_seq_first) simp_all
    thus ?thesis by simp
  next
    case False
    with Cons.prems(1) have "x \<in> set ys" by simp
    moreover have "\<And>z. z \<in> set ys \<Longrightarrow> never_raises (body z)"
      using Cons.prems(2) by simp
    ultimately have "\<And>a'. w \<in> set (snd (fst (for_each body ys a')))"
      using Cons.IH by blast
    moreover have "never_raises (body y)" using Cons.prems(2) by simp
    ultimately have "w \<in> set (snd (fst (seq (body y) (for_each body ys) a)))"
      by (intro warned_seq_later)
    thus ?thesis by simp
  qed
qed

lemma warnings_of_finish: "warnings_of (finish r) = snd (fst r)"
  by (cases r) (auto simp: warnings_of_def finish_def split: option.splits prod.splits)

lemma run_checker_checks:
  "ld content = Inr d \<Longrightarrow> py_truthy d \<Longrightarrow>
   run_checker ld checks content = finish (checks d ([], []))"
  by (simp add: run_checker_def)


section \<open>GitLab CI: undefined variables\<close>










section \<open>GitHub Actions: references to secrets\<close>

lemma gh_rule_jobs_never_raises: "never_raises (gh_rule_jobs (PDict entries))"
  by (simp add: gh_rule_jobs_def py_not_in_def bindE_def never_raises_if_then
        never_raises_add_failure)

lemma gh_rule_triggers_never_raises: "never_raises (gh_rule_triggers (PDict entries))"
  by (simp add: gh_rule_triggers_def py_not_in_def bindE_def never_raises_if_then
        never_raises_add_failure)

text \<open>Reading an object gives the same under every number it goes by.\<close>

lemma py_in_obj: "py_in x (obj c) = py_in x c"
  by (induction c rule: obj.induct) simp_all

lemma py_getitem_obj: "py_getitem (obj c) k = py_getitem c k"
  by (induction c rule: obj.induct) simp_all

lemma py_items_obj: "py_items (obj c) = py_items c"
  by (induction c rule: obj.induct) simp_all

lemma py_iter_obj: "py_iter (obj c) = py_iter c"
  by (induction c rule: obj.induct) simp_all

lemma is_list_obj: "is_list c \<Longrightarrow> \<exists>xs. obj c = PList xs"
  by (induction c rule: obj.induct) simp_all

lemma absent_or_empty_obj: "absent_or_empty k (obj c) = absent_or_empty k c"
  unfolding absent_or_empty_def py_not_in_def py_in_obj py_getitem_obj by (rule refl)

lemma absent_or_empty_dict: "\<exists>b. absent_or_empty k (PDict props) = Inr b"
  by (cases "dict_find (PStr k) props") (auto simp: absent_or_empty_def py_not_in_def bindE_def)

lemma well_formed_job_cases:
  assumes "job_well_formed job"
  obtains props where "obj job = PDict props" and "dict_find (PStr ''steps'') props = None"
  | props st steps where "obj job = PDict props" and "dict_find (PStr ''steps'') props = Some st"
      and "obj st = PList steps"
proof (cases "obj job")
  case (PDict props)
  show ?thesis
  proof (cases "dict_find (PStr ''steps'') props")
    case None
    with PDict that(1) show ?thesis by blast
  next
    case (Some st)
    with assms PDict have "is_list st" by (simp add: job_well_formed_def)
    then obtain steps where "obj st = PList steps" using is_list_obj by blast
    with Some PDict that(2) show ?thesis by blast
  qed
qed (insert assms, simp_all add: job_well_formed_def)

lemma jobs_items_of:
  assumes "dict_find (PStr ''jobs'') entries = Some js" and "obj js = PDict jobs"
  shows "jobs_items (PDict entries) = Inr jobs"
proof -
  from assms(2) have "py_items js = Inr jobs" using py_items_obj[of js] by simp
  with assms(1) show ?thesis by (simp add: jobs_items_def bindE_def)
qed

lemma gh_rule_steps_never_raises:
  assumes "dict_find (PStr ''jobs'') entries = Some js" and "obj js = PDict jobs"
    and "list_all job_well_formed (map snd jobs)"
  shows "never_raises (gh_rule_steps (PDict entries))"
proof -
  let ?body = "\<lambda>(job_name, job). if_then (absent_or_empty ''steps'' job)
                                     (add_failure (gh_missing_steps job_name))"
  have rule: "gh_rule_steps (PDict entries) = for_each ?body jobs"
    using assms(1) jobs_items_of[OF assms(1,2)]
    by (simp add: gh_rule_steps_def if_then_def bind_step_def)
  have "never_raises (?body y)" if "y \<in> set jobs" for y
  proof -
    obtain n j where y: "y = (n, j)" by (cases y)
    with that assms(3) have "job_well_formed j" by (auto simp: list_all_iff)
    then obtain props where j: "obj j = PDict props" by (rule well_formed_job_cases)
    obtain b where "absent_or_empty ''steps'' (PDict props) = Inr b"
      using absent_or_empty_dict by blast
    with j have "absent_or_empty ''steps'' j = Inr b"
      using absent_or_empty_obj[of "''steps''" j] by simp
    with y show ?thesis by (simp add: never_raises_if_then never_raises_add_failure)
  qed
  hence "never_raises (for_each ?body jobs)" by (rule never_raises_for_each_on)
  with rule show ?thesis by simp
qed

lemma enumerate_list_member: "i < length xs \<Longrightarrow> (i, xs ! i) \<in> set (enumerate_list xs)"
  by (auto simp: enumerate_list_def in_set_zip intro!: exI[of _ i])

lemma steps_of_job:
  assumes "obj job = PDict props" and "dict_find (PStr ''steps'') props = Some st"
    and "obj st = PList steps"
  shows "py_in (PStr ''steps'') job = Inr True"
    and "bindE (py_getitem job (PStr ''steps'')) py_iter = Inr steps"
proof -
  from assms(1,2) show "py_in (PStr ''steps'') job = Inr True"
    using py_in_obj[of "PStr ''steps''" job] by simp
  from assms(1,2) have "py_getitem job (PStr ''steps'') = Inr st"
    using py_getitem_obj[of job "PStr ''steps''"] by simp
  moreover from assms(3) have "py_iter st = Inr steps" using py_iter_obj[of st] by simp
  ultimately show "bindE (py_getitem job (PStr ''steps'')) py_iter = Inr steps"
    by (simp add: bindE_def)
qed

lemma no_steps_in_job:
  assumes "obj job = PDict props" and "dict_find (PStr ''steps'') props = None"
  shows "py_in (PStr ''steps'') job = Inr False"
  using assms py_in_obj[of "PStr ''steps''" job] by simp

lemma gh_rule_secrets_warns:
  assumes "dict_find (PStr ''jobs'') entries = Some js" and "obj js = PDict jobs"
    and "list_all job_well_formed (map snd jobs)"
    and "(job_name, job) \<in> set jobs" and "obj job = PDict props"
    and "dict_find (PStr ''steps'') props = Some st" and "obj st = PList steps"
    and "i < length steps"
    and "secret \<in> set (re_findall1 re_secret (py_str (steps ! i)))"
  shows "gh_undefined_secret secret job_name i \<in>
           set (snd (fst (gh_rule_secrets (PDict entries) a)))"
proof -
  let ?w = "gh_undefined_secret secret job_name i"
  let ?inner = "\<lambda>n (k, step). for_each (\<lambda>s. add_warning (gh_undefined_secret s n k))
                                   (re_findall1 re_secret (py_str step))"
  let ?outer = "\<lambda>(n, j). if_then (py_in (PStr ''steps'') j)
                            (bind_step (bindE (py_getitem j (PStr ''steps'')) py_iter)
                               (\<lambda>steps. for_each (?inner n) (enumerate_list steps)))"
  have rule: "gh_rule_secrets (PDict entries) = for_each ?outer jobs"
    using assms(1) jobs_items_of[OF assms(1,2)]
    by (simp add: gh_rule_secrets_def if_then_def bind_step_def)
  have inner_nr: "never_raises (?inner n y)" for n y
    by (cases y) (simp add: never_raises_for_each never_raises_add_warning)
  have inner_ap: "appends_only (?inner n y)" for n y
    by (cases y) (simp add: appends_only_for_each appends_only_add_warning)
  have outer_ap: "appends_only (?outer y)" for y
  proof -
    obtain n j where y: "y = (n, j)" by (cases y)
    have "appends_only (if_then (py_in (PStr ''steps'') j)
            (bind_step (bindE (py_getitem j (PStr ''steps'')) py_iter)
               (\<lambda>steps. for_each (?inner n) (enumerate_list steps))))"
      by (intro appends_only_if_then appends_only_bind_step appends_only_for_each inner_ap)
    with y show ?thesis by simp
  qed
  have outer_nr: "never_raises (?outer y)" if "y \<in> set jobs" for y
  proof -
    obtain n j where y: "y = (n, j)" by (cases y)
    with that assms(3) have "job_well_formed j" by (auto simp: list_all_iff)
    thus ?thesis
    proof (cases rule: well_formed_job_cases)
      case (1 ps)
      with y show ?thesis
        by (simp add: no_steps_in_job[OF 1] if_then_def never_raises_skip)
    next
      case (2 ps s ss)
      with y show ?thesis
        by (simp add: steps_of_job[OF 2] if_then_def bind_step_def never_raises_for_each inner_nr)
    qed
  qed
  have "?w \<in> set (snd (fst (for_each (\<lambda>s. add_warning (gh_undefined_secret s job_name i))
                              (re_findall1 re_secret (py_str (steps ! i))) a')))" for a'
    using assms(9)
    by (intro warned_for_each[where x=secret])
       (simp_all add: never_raises_add_warning appends_only_add_warning add_warning_def)
  hence "?w \<in> set (snd (fst (?inner job_name (i, steps ! i) a')))" for a'
    by simp
  hence "?w \<in> set (snd (fst (for_each (?inner job_name) (enumerate_list steps) a')))" for a'
    using enumerate_list_member[OF assms(8)] inner_nr inner_ap
    by (intro warned_for_each[where x="(i, steps ! i)"]) simp_all
  hence "?w \<in> set (snd (fst (?outer (job_name, job) a')))" for a'
    by (simp add: steps_of_job[OF assms(5,6,7)] if_then_def bind_step_def)
  hence "?w \<in> set (snd (fst (for_each ?outer jobs a)))"
    using assms(4) outer_nr outer_ap
    by (intro warned_for_each[where x="(job_name, job)"]) simp_all
  with rule show ?thesis by simp
qed

lemma gh_rule_needs_appends: "appends_only (gh_rule_needs pipeline)"
  unfolding gh_rule_needs_def
  by (intro appends_only_if_then appends_only_bind_step appends_only_for_each
        appends_only_pair appends_only_if appends_only_add_failure appends_only_skip)

lemma gh_rule_runner_appends: "appends_only (gh_rule_runner pipeline)"
  unfolding gh_rule_runner_def
  by (intro appends_only_if_then appends_only_bind_step appends_only_for_each
        appends_only_pair appends_only_add_failure)

lemma gh_rule_logs_appends: "appends_only (gh_rule_logs logs)"
  unfolding gh_rule_logs_def
  by (intro appends_only_if_then appends_only_seqs)
     (simp add: appends_only_if_then appends_only_add_warning)

text \<open>
  Claim C8, as the code has it. For a GitHub Actions text that parses to a mapping
  whose \<open>jobs\<close> are a mapping in which every job is well formed (each job a mapping; its
  \<open>steps\<close>, if present, a sequence): for every job with steps, every step and every name
  the pattern \<open>\$\{\{\s*secrets\.([a-zA-Z0-9_-]+)\s*\}\}\<close> finds in the text of that
  step, the report holds the \<open>undefined_secret\<close> warning with that name, the job's name
  and the step's index. The mappings and the sequence may be objects that the document
  holds at several places. The condition on the other jobs is needed, see the
  counterexample. Nothing else is asked: the detector has no input that says which
  secrets exist.
\<close>

theorem gh_secret_reference_reported:
  assumes "ld content = Inr (PDict entries)"
    and "dict_find (PStr ''jobs'') entries = Some js" and "obj js = PDict jobs"
    and "list_all job_well_formed (map snd jobs)"
    and "(job_name, job) \<in> set jobs" and "obj job = PDict props"
    and "dict_find (PStr ''steps'') props = Some st" and "obj st = PList steps"
    and "i < length steps"
    and "secret \<in> set (re_findall1 re_secret (py_str (steps ! i)))"
  shows "gh_undefined_secret secret job_name i \<in>
           set (warnings_of (detect_failures ld content ''github_actions'' logs))"
proof -
  from assms(2) have "entries \<noteq> []" by auto
  with assms(1)
  have report: "detect_failures ld content ''github_actions'' logs =
                  finish (gh_checks logs (PDict entries) ([], []))"
    by (simp add: detect_failures_def detect_github_actions_failures_def run_checker_checks)
  have rest: "appends_only (seq (gh_rule_needs (PDict entries))
                              (seq (gh_rule_runner (PDict entries)) (seq (gh_rule_logs logs) skip)))"
    by (intro appends_only_seq appends_only_skip gh_rule_needs_appends gh_rule_runner_appends
          gh_rule_logs_appends)
  have core: "gh_undefined_secret secret job_name i \<in>
          set (snd (fst (seq (gh_rule_secrets (PDict entries))
                           (seq (gh_rule_needs (PDict entries))
                              (seq (gh_rule_runner (PDict entries)) (seq (gh_rule_logs logs) skip))) a)))" for a
    using gh_rule_secrets_warns[OF assms(2-10)] rest by (intro warned_seq_first)
  have "gh_undefined_secret secret job_name i \<in>
          set (snd (fst (gh_checks logs (PDict entries) ([], []))))"
    unfolding gh_checks_def seqs.simps
    by (intro warned_seq_later[OF gh_rule_jobs_never_raises]
          warned_seq_later[OF gh_rule_triggers_never_raises]
          warned_seq_later[OF gh_rule_steps_never_raises[OF assms(2,3,4)]] core)
  with report show ?thesis by (simp add: warnings_of_finish)
qed

theorem gh_secret_reference_reported_witness:
  "safe_load secrets_text =
     Inr (PDict [(PStr ''jobs'',
                  PDict [(PStr ''deploy'',
                          PDict [(PStr ''runs-on'', PStr ''ubuntu-latest''),
                                 (PStr ''steps'',
                                  PList [PDict [(PStr ''uses'', PStr ''actions/checkout@v3'')],
                                         PDict [(PStr ''run'', PStr ''deploy ${{ secrets.TOKEN }}'')]])])])]) \<and>
   re_findall1 re_secret (py_str (PDict [(PStr ''run'', PStr ''deploy ${{ secrets.TOKEN }}'')])) =
     [''TOKEN''] \<and>
   gh_undefined_secret ''TOKEN'' (PStr ''deploy'') 1 \<in>
     set (warnings_of (detect_failures safe_load secrets_text ''github_actions'' None)) \<and>
   map (\<lambda>w. [fget w ''type'', fget w ''secret'', fget w ''job'', fget w ''step''])
     (warnings_of (detect_failures safe_load secrets_text ''github_actions'' None)) =
     [[PStr ''undefined_secret'', PStr ''TOKEN'', PStr ''deploy'', PInt 1]]"
proof -
  let ?step = "PDict [(PStr ''run'', PStr ''deploy ${{ secrets.TOKEN }}'')]"
  let ?steps = "[PDict [(PStr ''uses'', PStr ''actions/checkout@v3'')], ?step]"
  let ?props = "[(PStr ''runs-on'', PStr ''ubuntu-latest''), (PStr ''steps'', PList ?steps)]"
  let ?jobs = "[(PStr ''deploy'', PDict ?props)]"
  let ?entries = "[(PStr ''jobs'', PDict ?jobs)]"
  have l: "safe_load secrets_text = Inr (PDict ?entries)" by code_simp
  have f: "re_findall1 re_secret (py_str ?step) = [''TOKEN'']" by code_simp
  have j: "dict_find (PStr ''jobs'') ?entries = Some (PDict ?jobs)" by simp
  have oj: "obj (PDict ?jobs) = PDict ?jobs" by simp
  have w: "list_all job_well_formed (map snd ?jobs)" by (simp add: job_well_formed_def)
  have m: "(PStr ''deploy'', PDict ?props) \<in> set ?jobs" by simp
  have op: "obj (PDict ?props) = PDict ?props" by simp
  have s: "dict_find (PStr ''steps'') ?props = Some (PList ?steps)" by simp
  have os: "obj (PList ?steps) = PList ?steps" by simp
  have i: "(1::nat) < length ?steps" by simp
  have r: "''TOKEN'' \<in> set (re_findall1 re_secret (py_str (?steps ! 1)))" using f by simp
  have t: "map (\<lambda>w. [fget w ''type'', fget w ''secret'', fget w ''job'', fget w ''step''])
             (warnings_of (detect_failures safe_load secrets_text ''github_actions'' None)) =
           [[PStr ''undefined_secret'', PStr ''TOKEN'', PStr ''deploy'', PInt 1]]" by code_simp
  note th = gh_secret_reference_reported
    [where ld=safe_load and content=secrets_text and entries="?entries" and js="PDict ?jobs"
       and jobs="?jobs" and job_name="PStr ''deploy''" and job="PDict ?props" and props="?props"
       and st="PList ?steps" and steps="?steps" and i=1 and secret="''TOKEN''" and logs=None,
     OF l j oj w m op s os i r]
  show ?thesis
    apply (intro conjI)
       apply (rule l)
      apply (rule f)
     apply (rule th)
    apply (rule t)
    done
qed

text \<open>
  Counterexample to claim C8 as stated: a workflow with two jobs. Job \<open>a\<close> has a step
  that reads the secret \<open>FOO\<close>; job \<open>b\<close> has no body and loads as \<open>None\<close>. The check of
  the steps raises on job \<open>b\<close> before the secrets are looked at: the report has status
  \<open>error\<close>, the one failure found before (\<open>missing_triggers\<close>) and no warning.
\<close>

theorem sibling_job_without_body_stops_detection:
  "safe_load sibling_text =
     Inr (PDict [(PStr ''jobs'',
                  PDict [(PStr ''a'',
                          PDict [(PStr ''steps'',
                                  PList [PDict [(PStr ''run'', PStr ''echo ${{ secrets.FOO }}'')]])]),
                         (PStr ''b'', PNone)])]) \<and>
   re_findall1 re_secret (py_str (PDict [(PStr ''run'', PStr ''echo ${{ secrets.FOO }}'')])) =
     [''FOO''] \<and>
   status (detect_failures safe_load sibling_text ''github_actions'' None) = ''error'' \<and>
   map (\<lambda>f. fget f ''type'')
     (failures_of (detect_failures safe_load sibling_text ''github_actions'' None)) =
     [PStr ''missing_triggers''] \<and>
   warnings_of (detect_failures safe_load sibling_text ''github_actions'' None) = []"
  by code_simp

section \<open>Repair of an invalid dependency\<close>


















end
